theory Spec2Isabelle
  imports Main "HOL-Library.AList"
begin

section \<open>Exceptions\<close>

text \<open>
  The exceptions that \<open>fetch_monthly_data\<close> can meet. An exception the source raises
  itself carries its text; a \<open>KeyError\<close> carries the missing key; the exceptions that
  the interpreter or \<open>datetime\<close> raise carry no text, since their wording is chosen by
  the Python version. \<open>StrDigitsValueError\<close> is the \<open>ValueError\<close> of a conversion of an
  \<open>int\<close> to decimal text beyond the digit limit, \<open>DatetimeValueError\<close> the \<open>ValueError\<close>
  of the \<open>datetime\<close> constructor.
\<close>

datatype exn =
    RequestException string
  | ValueError string
  | KeyError string
  | TypeError
  | AttributeError
  | StrDigitsValueError
  | DatetimeValueError
  | OverflowError

section \<open>Formatting integers\<close>

fun str_nat :: "nat \<Rightarrow> string" where
  "str_nat n =
     (if n < 10 then [''0123456789'' ! n]
      else str_nat (n div 10) @ [''0123456789'' ! (n mod 10)])"

declare str_nat.simps [simp del]

definition decimal :: "int \<Rightarrow> string" where
  \<comment> \<open>the decimal text of an \<open>int\<close>\<close>
  "decimal i = (if i < 0 then ''-'' @ str_nat (nat (- i)) else str_nat (nat i))"

definition int_max_str_digits :: nat where
  \<comment> \<open>the default of \<open>sys.get_int_max_str_digits()\<close>, CPython 3.11 and later\<close>
  "int_max_str_digits = 4300"

definition exceeds_str_digits :: "int \<Rightarrow> bool" where
  \<comment> \<open>the \<open>int\<close> has more decimal digits than the limit; the sign does not count\<close>
  "exceeds_str_digits i \<longleftrightarrow> 10 ^ int_max_str_digits \<le> \<bar>i\<bar>"

definition str_int :: "int \<Rightarrow> exn + string" where
  \<comment> \<open>\<open>f"{i}"\<close> for an \<open>int\<close>: beyond the digit limit the conversion raises \<open>ValueError\<close>\<close>
  "str_int i = (if exceeds_str_digits i then Inl StrDigitsValueError else Inr (decimal i))"

definition zfill :: "nat \<Rightarrow> string \<Rightarrow> string" where
  "zfill w s = replicate (w - length s) (CHR ''0'') @ s"

definition fmt_02d :: "int \<Rightarrow> exn + string" where
  \<comment> \<open>\<open>f"{i:02d}"\<close>: the sign, if any, comes first and counts in the width; the digit
      limit applies as it does to \<open>f"{i}"\<close>\<close>
  "fmt_02d i =
     (if exceeds_str_digits i then Inl StrDigitsValueError
      else Inr (if i < 0 then ''-'' @ zfill 1 (str_nat (nat (- i))) else zfill 2 (str_nat (nat i))))"

section \<open>The calendar of \<open>datetime\<close>\<close>

text \<open>
  \<open>datetime(year, month + 1, 1) - timedelta(days=1)\<close> goes through the proleptic
  Gregorian ordinal of the date. The functions below follow CPython's \<open>datetime\<close>
  module (\<open>_is_leap\<close>, \<open>_days_before_year\<close>, \<open>_days_in_month\<close>, \<open>_days_before_month\<close>,
  \<open>_ymd2ord\<close>, \<open>_ord2ymd\<close>, \<open>_check_date_fields\<close>, \<open>datetime.__add__\<close>). Python's \<open>//\<close>
  and \<open>%\<close> round towards minus infinity, as \<open>div\<close> and \<open>mod\<close> on \<open>int\<close> do.
\<close>

type_synonym date = "int \<times> int \<times> int"

definition MINYEAR :: int where "MINYEAR = 1"
definition MAXYEAR :: int where "MAXYEAR = 9999"
definition MAXORDINAL :: int where "MAXORDINAL = 3652059"

definition DAYS_IN_MONTH :: "int list" where
  "DAYS_IN_MONTH = [-1, 31, 28, 31, 30, 31, 30, 31, 31, 30, 31, 30, 31]"

definition DAYS_BEFORE_MONTH :: "int list" where
  "DAYS_BEFORE_MONTH = [-1, 0, 31, 59, 90, 120, 151, 181, 212, 243, 273, 304, 334]"

definition is_leap :: "int \<Rightarrow> bool" where
  "is_leap year \<longleftrightarrow> year mod 4 = 0 \<and> (year mod 100 \<noteq> 0 \<or> year mod 400 = 0)"

definition days_before_year :: "int \<Rightarrow> int" where
  "days_before_year year = (let y = year - 1 in y * 365 + y div 4 - y div 100 + y div 400)"

definition days_in_month :: "int \<Rightarrow> int \<Rightarrow> int" where
  "days_in_month year month =
     (if month = 2 \<and> is_leap year then 29 else DAYS_IN_MONTH ! nat month)"

definition days_before_month :: "int \<Rightarrow> int \<Rightarrow> int" where
  "days_before_month year month =
     DAYS_BEFORE_MONTH ! nat month + (if month > 2 \<and> is_leap year then 1 else 0)"

definition ymd2ord :: "int \<Rightarrow> int \<Rightarrow> int \<Rightarrow> int" where
  "ymd2ord year month day = days_before_year year + days_before_month year month + day"

definition DI400Y :: int where "DI400Y = 146097"
definition DI100Y :: int where "DI100Y = 36524"
definition DI4Y :: int where "DI4Y = 1461"

definition ord2ymd :: "int \<Rightarrow> date" where
  "ord2ymd n0 =
     (let n = n0 - 1;
          n400 = n div DI400Y; n = n mod DI400Y;
          year = n400 * 400 + 1;
          n100 = n div DI100Y; n = n mod DI100Y;
          n4 = n div DI4Y; n = n mod DI4Y;
          n1 = n div 365; n = n mod 365;
          year = year + (n100 * 100 + n4 * 4 + n1)
      in if n1 = 4 \<or> n100 = 4 then (year - 1, 12, 31)
         else
           let leapyear = (n1 = 3 \<and> (n4 \<noteq> 24 \<or> n100 = 3));
               month = (n + 50) div 32;
               preceding = DAYS_BEFORE_MONTH ! nat month
                             + (if month > 2 \<and> leapyear then 1 else 0)
           in if preceding > n
              then let month = month - 1;
                       preceding = preceding
                         - (DAYS_IN_MONTH ! nat month + (if month = 2 \<and> leapyear then 1 else 0))
                   in (year, month, n - preceding + 1)
              else (year, month, n - preceding + 1))"

definition c_int :: "int \<Rightarrow> bool" where
  \<comment> \<open>the value fits the C \<open>int\<close> that the constructor's arguments are converted to\<close>
  "c_int i \<longleftrightarrow> - (2 ^ 31) \<le> i \<and> i < 2 ^ 31"

definition datetime :: "int \<Rightarrow> int \<Rightarrow> int \<Rightarrow> exn + date" where
  \<comment> \<open>the constructor: the three arguments are converted to C \<open>int\<close>s (\<open>OverflowError\<close>),
      then come the checks of \<open>_check_date_fields\<close>; the time of day is midnight\<close>
  "datetime year month day =
     (if \<not> (c_int year \<and> c_int month \<and> c_int day) then Inl OverflowError
      else if \<not> (MINYEAR \<le> year \<and> year \<le> MAXYEAR) then Inl DatetimeValueError
      else if \<not> (1 \<le> month \<and> month \<le> 12) then Inl DatetimeValueError
      else if \<not> (1 \<le> day \<and> day \<le> days_in_month year month) then Inl DatetimeValueError
      else Inr (year, month, day))"

definition minus_days :: "date \<Rightarrow> int \<Rightarrow> exn + date" where
  \<comment> \<open>\<open>d - timedelta(days=k)\<close> for a \<open>datetime\<close> at midnight\<close>
  "minus_days d k =
     (case d of (year, month, day) \<Rightarrow>
        let days = ymd2ord year month day - k
        in if 0 < days \<and> days \<le> MAXORDINAL then Inr (ord2ymd days) else Inl OverflowError)"

definition strftime_Ymd :: "date \<Rightarrow> string" where
  \<comment> \<open>\<open>strftime("%Y-%m-%d")\<close> of a date that \<open>datetime\<close> holds (year 1 to 9999). \<open>%Y\<close> is
      written as the C library of Linux writes it, without filling: the year 999 gives
      \<open>999\<close>. From the year 1000 on every platform writes the same four digits.\<close>
  "strftime_Ymd d =
     (case d of (year, month, day) \<Rightarrow>
        str_nat (nat year) @ ''-'' @ zfill 2 (str_nat (nat month))
          @ ''-'' @ zfill 2 (str_nat (nat day)))"

section \<open>The date range of a month\<close>

text \<open>
  Lines 36 to 41 of \<open>fetch_monthly_data\<close>. They stand before the \<open>try\<close>, so an exception
  of the f-strings or of the \<open>datetime\<close> constructor leaves the function uncaught.
\<close>

definition start_date :: "int \<Rightarrow> int \<Rightarrow> exn + string" where
  \<comment> \<open>line 36\<close>
  "start_date year month =
     (case str_int year of
        Inl e \<Rightarrow> Inl e
      | Inr y \<Rightarrow> (case fmt_02d month of
                   Inl e \<Rightarrow> Inl e
                 | Inr m \<Rightarrow> Inr (y @ ''-'' @ m @ ''-01'')))"

definition end_datetime :: "int \<Rightarrow> int \<Rightarrow> exn + date" where
  \<comment> \<open>the value of \<open>end_date\<close> at line 40, in the branch \<open>month \<noteq> 12\<close>\<close>
  "end_datetime year month =
     (case datetime year (month + 1) 1 of
        Inl e \<Rightarrow> Inl e
      | Inr d \<Rightarrow> minus_days d 1)"

definition end_date :: "int \<Rightarrow> int \<Rightarrow> exn + string" where
  \<comment> \<open>lines 37 to 41\<close>
  "end_date year month =
     (if month = 12
      then (case str_int year of Inl e \<Rightarrow> Inl e | Inr y \<Rightarrow> Inr (y @ ''-12-31''))
      else case end_datetime year month of
             Inl e \<Rightarrow> Inl e
           | Inr d \<Rightarrow> Inr (strftime_Ymd d))"

section \<open>Decoded JSON\<close>

text \<open>
  What \<open>response.json()\<close> returns. An object is the decoded \<open>dict\<close>, written as the
  list of its items in insertion order and read with \<open>map_of\<close>. Floats are kept
  abstract (\<open>'f\<close>): the program only passes them on.
\<close>

datatype 'f json =
    JNull
  | JBool bool
  | JInt int
  | JFloat 'f
  | JStr string
  | JArr "'f json list"
  | JObj "(string \<times> 'f json) list"

fun str_contains :: "string \<Rightarrow> string \<Rightarrow> bool" where
  \<comment> \<open>\<open>k in s\<close> for two strings\<close>
  "str_contains k [] \<longleftrightarrow> k = []"
| "str_contains k (c # cs) \<longleftrightarrow> take (length k) (c # cs) = k \<or> str_contains k cs"

definition py_in :: "string \<Rightarrow> 'f json \<Rightarrow> exn + bool" where
  \<comment> \<open>\<open>k in data\<close> for a string \<open>k\<close>\<close>
  "py_in k data =
     (case data of
        JObj items \<Rightarrow> Inr (k \<in> set (map fst items))
      | JArr xs \<Rightarrow> Inr (JStr k \<in> set xs)
      | JStr s \<Rightarrow> Inr (str_contains k s)
      | _ \<Rightarrow> Inl TypeError)"

definition py_get :: "'f json \<Rightarrow> string \<Rightarrow> 'f json \<Rightarrow> exn + 'f json" where
  \<comment> \<open>\<open>data.get(k, dflt)\<close>: only a \<open>dict\<close> has it\<close>
  "py_get data k dflt =
     (case data of
        JObj items \<Rightarrow> Inr (case map_of items k of None \<Rightarrow> dflt | Some v \<Rightarrow> v)
      | _ \<Rightarrow> Inl AttributeError)"

definition py_getitem :: "'f json \<Rightarrow> string \<Rightarrow> exn + 'f json" where
  \<comment> \<open>\<open>data[k]\<close> for a string \<open>k\<close>\<close>
  "py_getitem data k =
     (case data of
        JObj items \<Rightarrow> (case map_of items k of None \<Rightarrow> Inl (KeyError k) | Some v \<Rightarrow> Inr v)
      | _ \<Rightarrow> Inl TypeError)"

definition py_iter :: "'f json \<Rightarrow> exn + 'f json list" where
  \<comment> \<open>the values a \<open>for\<close> loop over \<open>data\<close> visits: the elements of a list, the keys
      of a \<open>dict\<close>, the characters of a string\<close>
  "py_iter data =
     (case data of
        JArr xs \<Rightarrow> Inr xs
      | JObj items \<Rightarrow> Inr (map (\<lambda>(k, v). JStr k) items)
      | JStr s \<Rightarrow> Inr (map (\<lambda>c. JStr [c]) s)
      | _ \<Rightarrow> Inl TypeError)"

definition py_str :: "('f json \<Rightarrow> string) \<Rightarrow> 'f json \<Rightarrow> string" where
  \<comment> \<open>\<open>f"{v}"\<close>: a string stands for itself, any other value is written by \<open>repr\<close>\<close>
  "py_str repr v = (case v of JStr s \<Rightarrow> s | _ \<Rightarrow> repr v)"

section \<open>The request and the libraries\<close>

record request =
  verb :: string
  url :: string
  params :: "(string \<times> string) list"
  timeout :: int

record 'f response =
  status_code :: int
  reason :: string
  response_url :: string
  json :: "exn + 'f json"

text \<open>
  \<open>requests.get\<close> either raises or returns a response; \<open>response.json()\<close> either raises or
  returns the decoded body. What the network answers is a parameter of the model, as
  are the library functions whose results depend on the data:
  \<^item> \<open>float_of_int\<close> and \<open>nan\<close>: the float that pandas stores for an \<open>int\<close> and for a
    missing value in a float column;
  \<^item> \<open>to_datetime_value\<close>: the conversion of one cell by \<open>pd.to_datetime\<close>, given the whole
    column, since pandas infers the format from the column (its first value) and
    converts every cell with it;
  \<^item> \<open>repr\<close> on a decoded value that is not a string.
  A cell of a DataFrame holds a decoded value, or a timestamp once \<open>pd.to_datetime\<close> has
  converted it.
\<close>

datatype 'f get_result = GetRaises exn | GetReturns "'f response"

datatype ('f, 'd) cell = Value "'f json" | Timestamp 'd

record ('f, 'd) library =
  requests_get :: "request \<Rightarrow> 'f get_result"
  float_of_int :: "int \<Rightarrow> 'f"
  nan :: 'f
  to_datetime_value :: "('f, 'd) cell list \<Rightarrow> ('f, 'd) cell \<Rightarrow> exn + 'd"
  repr :: "'f json \<Rightarrow> string"

definition raise_for_status :: "'f response \<Rightarrow> exn + unit" where
  \<comment> \<open>\<open>Response.raise_for_status\<close> of requests: an \<open>HTTPError\<close>, which is a
      \<open>RequestException\<close>, for the statuses 400 to 599 and for no other\<close>
  "raise_for_status r =
     (if 400 \<le> status_code r \<and> status_code r < 500
      then Inl (RequestException (decimal (status_code r) @ '' Client Error: '' @ reason r
                  @ '' for url: '' @ response_url r))
      else if 500 \<le> status_code r \<and> status_code r < 600
      then Inl (RequestException (decimal (status_code r) @ '' Server Error: '' @ reason r
                  @ '' for url: '' @ response_url r))
      else Inr ())"

definition timeline :: string where
  "timeline = ''https://weather.visualcrossing.com/VisualCrossingWebServices/rest/services/timeline/''"

definition build_request :: "string \<Rightarrow> string \<Rightarrow> string \<Rightarrow> string \<Rightarrow> request" where
  \<comment> \<open>lines 43 to 50 and the arguments of \<open>requests.get\<close> at line 53\<close>
  "build_request city start_s end_s api_key =
     \<lparr>verb = ''GET'',
      url = timeline @ city @ ''/'' @ start_s @ ''/'' @ end_s,
      params = [(''key'', api_key), (''include'', ''days''), (''unitGroup'', ''metric''),
                (''contentType'', ''json''),
                (''elements'', ''datetime,tempmax,tempmin,temp,conditions,precip'')],
      timeout = 10\<rparr>"

section \<open>The rows and the DataFrame\<close>

text \<open>
  The \<open>dict\<close> that the loop appends to \<open>days_data\<close> has six fixed keys: \<open>"Date"\<close>,
  \<open>"Max Temp (\<degree>C)"\<close>, \<open>"Min Temp (\<degree>C)"\<close>, \<open>"Avg Temp (\<degree>C)"\<close>, \<open>"Conditions"\<close> and
  \<open>"Precip (mm)"\<close>.
\<close>

record 'f row =
  Date :: "'f json"
  Max_Temp :: "'f json"
  Min_Temp :: "'f json"
  Avg_Temp :: "'f json"
  Conditions :: "'f json"
  Precip :: "'f json"

definition make_row :: "'f json \<Rightarrow> exn + 'f row" where
  \<comment> \<open>lines 62 to 69, the items evaluated in the order written\<close>
  "make_row day =
     (case py_getitem day ''datetime'' of Inl e \<Rightarrow> Inl e | Inr v1 \<Rightarrow>
      case py_getitem day ''tempmax'' of Inl e \<Rightarrow> Inl e | Inr v2 \<Rightarrow>
      case py_getitem day ''tempmin'' of Inl e \<Rightarrow> Inl e | Inr v3 \<Rightarrow>
      case py_getitem day ''temp'' of Inl e \<Rightarrow> Inl e | Inr v4 \<Rightarrow>
      case py_getitem day ''conditions'' of Inl e \<Rightarrow> Inl e | Inr v5 \<Rightarrow>
      case py_get day ''precip'' (JInt 0) of Inl e \<Rightarrow> Inl e | Inr v6 \<Rightarrow>
        Inr \<lparr>Date = v1, Max_Temp = v2, Min_Temp = v3, Avg_Temp = v4,
             Conditions = v5, Precip = v6\<rparr>)"

fun append_days :: "'f row list \<Rightarrow> 'f json list \<Rightarrow> exn + 'f row list" where
  \<comment> \<open>the loop of lines 60 to 69; the first exception ends it\<close>
  "append_days days_data [] = Inr days_data"
| "append_days days_data (day # rest) =
     (case make_row day of
        Inl e \<Rightarrow> Inl e
      | Inr r \<Rightarrow> append_days (days_data @ [r]) rest)"

text \<open>
  A DataFrame is the list of its columns, each with its label and one cell per row.
  \<open>pd.DataFrame\<close> of an empty list has no columns at all. For a list of rows it infers the
  dtype of every column from the values: a column of \<open>int\<close>s, floats and \<open>None\<close>s that holds
  a float, or a \<open>None\<close> beside a number, becomes a float column, where an \<open>int\<close> is stored
  as the equal float and \<open>None\<close> as NaN; a column of \<open>int\<close>s only, of \<open>None\<close>s only, or one
  that holds a string, a boolean, a list or a \<open>dict\<close> keeps its values. (The \<open>int\<close>s are
  taken to fit 64 bits, as the statements below require.)
\<close>

type_synonym ('f, 'd) dataframe = "(string \<times> ('f, 'd) cell list) list"

definition degree :: string where
  \<comment> \<open>the degree sign, in UTF-8\<close>
  "degree = [CHR 0xC2, CHR 0xB0]"

definition col_Date :: string where "col_Date = ''Date''"
definition col_Max_Temp :: string where "col_Max_Temp = ''Max Temp ('' @ degree @ ''C)''"
definition col_Min_Temp :: string where "col_Min_Temp = ''Min Temp ('' @ degree @ ''C)''"
definition col_Avg_Temp :: string where "col_Avg_Temp = ''Avg Temp ('' @ degree @ ''C)''"
definition col_Conditions :: string where "col_Conditions = ''Conditions''"
definition col_Precip :: string where "col_Precip = ''Precip (mm)''"

definition is_null :: "'f json \<Rightarrow> bool" where
  "is_null v = (case v of JNull \<Rightarrow> True | _ \<Rightarrow> False)"

definition is_int :: "'f json \<Rightarrow> bool" where
  "is_int v = (case v of JInt i \<Rightarrow> True | _ \<Rightarrow> False)"

definition is_number_or_null :: "'f json \<Rightarrow> bool" where
  "is_number_or_null v = (case v of JNull \<Rightarrow> True | JInt i \<Rightarrow> True | JFloat x \<Rightarrow> True | _ \<Rightarrow> False)"

definition to_float :: "('f, 'd) library \<Rightarrow> 'f json \<Rightarrow> 'f json" where
  \<comment> \<open>a value in a float column\<close>
  "to_float lib v =
     (case v of JInt i \<Rightarrow> JFloat (float_of_int lib i) | JNull \<Rightarrow> JFloat (nan lib) | _ \<Rightarrow> v)"

definition infer_column :: "('f, 'd) library \<Rightarrow> 'f json list \<Rightarrow> 'f json list" where
  \<comment> \<open>the values of a column after the dtype inference of \<open>pd.DataFrame\<close>\<close>
  "infer_column lib vs =
     (if list_all is_number_or_null vs \<and> \<not> list_all is_null vs \<and> \<not> list_all is_int vs
      then map (to_float lib) vs else vs)"

definition DataFrame :: "('f, 'd) library \<Rightarrow> 'f row list \<Rightarrow> ('f, 'd) dataframe" where
  "DataFrame lib days_data =
     (if days_data = [] then []
      else [(col_Date, map Value (infer_column lib (map Date days_data))),
            (col_Max_Temp, map Value (infer_column lib (map Max_Temp days_data))),
            (col_Min_Temp, map Value (infer_column lib (map Min_Temp days_data))),
            (col_Avg_Temp, map Value (infer_column lib (map Avg_Temp days_data))),
            (col_Conditions, map Value (infer_column lib (map Conditions days_data))),
            (col_Precip, map Value (infer_column lib (map Precip days_data)))])"

definition df_getitem :: "('f, 'd) dataframe \<Rightarrow> string \<Rightarrow> exn + ('f, 'd) cell list" where
  \<comment> \<open>\<open>df[label]\<close>\<close>
  "df_getitem df label = (case map_of df label of None \<Rightarrow> Inl (KeyError label) | Some col \<Rightarrow> Inr col)"

definition df_setitem :: "('f, 'd) dataframe \<Rightarrow> string \<Rightarrow> ('f, 'd) cell list \<Rightarrow> ('f, 'd) dataframe" where
  \<comment> \<open>\<open>df[label] = col\<close>: an existing column keeps its place\<close>
  "df_setitem df label col = AList.update label col df"

definition df_empty :: "('f, 'd) dataframe \<Rightarrow> bool" where
  \<comment> \<open>\<open>df.empty\<close>: no columns, or no rows\<close>
  "df_empty df = (case df of [] \<Rightarrow> True | (label, col) # _ \<Rightarrow> col = [])"

fun convert_cells :: "(('f, 'd) cell \<Rightarrow> exn + 'd) \<Rightarrow> ('f, 'd) cell list \<Rightarrow> exn + ('f, 'd) cell list" where
  \<comment> \<open>every cell is converted; the first cell that cannot be converted raises\<close>
  "convert_cells conv [] = Inr []"
| "convert_cells conv (c # cs) =
     (case conv c of
        Inl e \<Rightarrow> Inl e
      | Inr d \<Rightarrow> (case convert_cells conv cs of
                   Inl e \<Rightarrow> Inl e
                 | Inr ds \<Rightarrow> Inr (Timestamp d # ds)))"

definition to_datetime :: "('f, 'd) library \<Rightarrow> ('f, 'd) cell list \<Rightarrow> exn + ('f, 'd) cell list" where
  \<comment> \<open>\<open>pd.to_datetime\<close> on a column: the result has one timestamp per cell of the column,
      each converted in view of the whole column\<close>
  "to_datetime lib col = convert_cells (to_datetime_value lib col) col"

section \<open>\<open>fetch_monthly_data\<close>\<close>

definition normalize :: "('f, 'd) library \<Rightarrow> 'f json \<Rightarrow> exn + ('f, 'd) dataframe" where
  \<comment> \<open>lines 57 to 73, on the decoded body\<close>
  "normalize lib data =
     (case py_in ''days'' data of Inl e \<Rightarrow> Inl e | Inr present \<Rightarrow>
      if \<not> present
      then (case py_get data ''message'' (JStr ''Invalid response'') of
              Inl e \<Rightarrow> Inl e
            | Inr m \<Rightarrow> Inl (ValueError (''API Error: '' @ py_str (repr lib) m)))
      else
      case py_getitem data ''days'' of Inl e \<Rightarrow> Inl e | Inr days \<Rightarrow>
      case py_iter days of Inl e \<Rightarrow> Inl e | Inr ds \<Rightarrow>
      case append_days [] ds of Inl e \<Rightarrow> Inl e | Inr days_data \<Rightarrow>
      let df = DataFrame lib days_data in
      case df_getitem df col_Date of Inl e \<Rightarrow> Inl e | Inr col \<Rightarrow>
      case to_datetime lib col of Inl e \<Rightarrow> Inl e | Inr col' \<Rightarrow>
        Inr (df_setitem df col_Date col'))"

definition try_block :: "('f, 'd) library \<Rightarrow> request \<Rightarrow> exn + ('f, 'd) dataframe" where
  \<comment> \<open>lines 53 to 73\<close>
  "try_block lib req =
     (case requests_get lib req of
        GetRaises e \<Rightarrow> Inl e
      | GetReturns response \<Rightarrow>
          (case raise_for_status response of
             Inl e \<Rightarrow> Inl e
           | Inr _ \<Rightarrow> (case json response of Inl e \<Rightarrow> Inl e | Inr data \<Rightarrow> normalize lib data)))"

text \<open>
  The two \<open>except\<close> clauses call \<open>st.error\<close> and return \<open>None\<close>. A failure records which
  clause caught the exception; \<open>st_error_text\<close> is the text shown, where the wording of
  the exception is modelled.
\<close>

datatype failure = API_Request_Failed string | Unexpected_Error exn

definition except :: "exn \<Rightarrow> failure" where
  \<comment> \<open>lines 75 to 80: \<open>RequestException\<close> first, then any other \<open>Exception\<close>\<close>
  "except e = (case e of RequestException s \<Rightarrow> API_Request_Failed s | _ \<Rightarrow> Unexpected_Error e)"

definition str_exn :: "exn \<Rightarrow> string option" where
  \<comment> \<open>\<open>str(e)\<close>; a \<open>KeyError\<close> shows the \<open>repr\<close> of its key\<close>
  "str_exn e =
     (case e of
        RequestException s \<Rightarrow> Some s
      | ValueError s \<Rightarrow> Some s
      | KeyError k \<Rightarrow> Some ([CHR 0x27] @ k @ [CHR 0x27])
      | _ \<Rightarrow> None)"

definition st_error_text :: "failure \<Rightarrow> string option" where
  "st_error_text f =
     (case f of
        API_Request_Failed s \<Rightarrow> Some (''API Request Failed: '' @ s @ ''. Check city name or API key.'')
      | Unexpected_Error e \<Rightarrow> map_option (\<lambda>s. ''Unexpected Error: '' @ s) (str_exn e))"

datatype ('f, 'd) outcome =
    Raised exn
  | Returned_None failure
  | Returned_df "('f, 'd) dataframe"

text \<open>
  The function as lines 34 to 80 write it. The result pairs the requests handed to
  \<open>requests.get\<close> with the outcome of the call.
\<close>

definition fetch_monthly_data ::
  "('f, 'd) library \<Rightarrow> string \<Rightarrow> int \<Rightarrow> int \<Rightarrow> string \<Rightarrow> request list \<times> ('f, 'd) outcome" where
  "fetch_monthly_data lib city year month api_key =
     (case start_date year month of
        Inl e \<Rightarrow> ([], Raised e)
      | Inr start_s \<Rightarrow>
          (case end_date year month of
             Inl e \<Rightarrow> ([], Raised e)
           | Inr end_s \<Rightarrow>
               let req = build_request city start_s end_s api_key
               in ([req], case try_block lib req of
                            Inl e \<Rightarrow> Returned_None (except e)
                          | Inr df \<Rightarrow> Returned_df df)))"

text \<open>
  The decorator of line 33, \<open>@st.cache_data(ttl=3600)\<close>: the name that line 85 calls is
  bound to the function above wrapped in a cache. The cache maps the arguments of a
  call to the time at which the entry expires and the outcome stored; the clock is a
  parameter, in seconds.
\<close>

type_synonym cache_key = "string \<times> int \<times> int \<times> string"

type_synonym ('f, 'd) cache = "cache_key \<Rightarrow> (int \<times> ('f, 'd) outcome) option"

definition ttl :: int where
  "ttl = 3600"

definition run_and_store ::
  "('f, 'd) library \<Rightarrow> int \<Rightarrow> ('f, 'd) cache \<Rightarrow> string \<Rightarrow> int \<Rightarrow> int \<Rightarrow> string
     \<Rightarrow> ('f, 'd) cache \<times> request list \<times> ('f, 'd) outcome" where
  \<comment> \<open>Modelled from the spec: a cache miss executes the full algorithm and stores the
      outcome (section 4.2), to expire one time-to-live later. An exception that leaves
      the function is not an outcome and is not stored.\<close>
  "run_and_store lib now cache city year month api_key =
     (case fetch_monthly_data lib city year month api_key of
        (reqs, out) \<Rightarrow>
          (case out of
             Raised e \<Rightarrow> (cache, reqs, out)
           | _ \<Rightarrow> (cache((city, year, month, api_key) \<mapsto> (now + ttl, out)), reqs, out)))"

definition cached_fetch_monthly_data ::
  "('f, 'd) library \<Rightarrow> int \<Rightarrow> ('f, 'd) cache \<Rightarrow> string \<Rightarrow> int \<Rightarrow> int \<Rightarrow> string
     \<Rightarrow> ('f, 'd) cache \<times> request list \<times> ('f, 'd) outcome" where
  \<comment> \<open>Modelled from the spec: the memoizing layer of \<open>st.cache_data\<close>, which is not in the
      repository: a mapping with per-entry expiry timestamps (section 5), keyed on
      (location, year, month, credential) with a time-to-live of one hour; a hit returns
      the stored outcome, success or failure alike, without a network call (section 4.2).\<close>
  "cached_fetch_monthly_data lib now cache city year month api_key =
     (case cache (city, year, month, api_key) of
        None \<Rightarrow> run_and_store lib now cache city year month api_key
      | Some (expires, out) \<Rightarrow>
          if now < expires then (cache, [], out)
          else run_and_store lib now cache city year month api_key)"

definition renders :: "('f, 'd) outcome \<Rightarrow> bool" where
  \<comment> \<open>line 87: \<open>df is not None and not df.empty\<close>; otherwise \<open>st.stop()\<close>\<close>
  "renders out = (case out of Returned_df df \<Rightarrow> \<not> df_empty df | _ \<Rightarrow> False)"

section \<open>Notions used in the statements\<close>

definition month_day :: "bool \<Rightarrow> int \<Rightarrow> int \<times> int" where
  \<comment> \<open>the last part of \<open>ord2ymd\<close>: month and day from the offset in the year\<close>
  "month_day leapyear n =
     (let month = (n + 50) div 32;
          preceding = DAYS_BEFORE_MONTH ! nat month + (if month > 2 \<and> leapyear then 1 else 0)
      in if preceding > n
         then let month = month - 1;
                  preceding = preceding
                    - (DAYS_IN_MONTH ! nat month + (if month = 2 \<and> leapyear then 1 else 0))
              in (month, n - preceding + 1)
         else (month, n - preceding + 1))"

definition field :: "string \<Rightarrow> 'f json \<Rightarrow> 'f json option" where
  \<comment> \<open>the value of a key in an entry, if the entry is an object that has the key\<close>
  "field k e = (case e of JObj items \<Rightarrow> map_of items k | _ \<Rightarrow> None)"

definition has_required :: "'f json \<Rightarrow> bool" where
  \<comment> \<open>an entry that is an object with the five keys that lines 63 to 67 read\<close>
  "has_required e \<longleftrightarrow>
     field ''datetime'' e \<noteq> None \<and> field ''tempmax'' e \<noteq> None \<and> field ''tempmin'' e \<noteq> None
     \<and> field ''temp'' e \<noteq> None \<and> field ''conditions'' e \<noteq> None"

definition row_of :: "'f json \<Rightarrow> 'f row" where
  \<comment> \<open>the row that lines 62 to 69 build from such an entry\<close>
  "row_of e =
     \<lparr>Date = the (field ''datetime'' e), Max_Temp = the (field ''tempmax'' e),
      Min_Temp = the (field ''tempmin'' e), Avg_Temp = the (field ''temp'' e),
      Conditions = the (field ''conditions'' e),
      Precip = (case field ''precip'' e of None \<Rightarrow> JInt 0 | Some v \<Rightarrow> v)\<rparr>"

definition precip_or_0 :: "'f json \<Rightarrow> 'f json" where
  \<comment> \<open>what line 68 reads from an entry: its \<open>precip\<close>, or 0 when it has none\<close>
  "precip_or_0 e = (case field ''precip'' e of None \<Rightarrow> JInt 0 | Some v \<Rightarrow> v)"

definition frame_of :: "('f, 'd) library \<Rightarrow> 'f json list \<Rightarrow> 'd list \<Rightarrow> ('f, 'd) dataframe" where
  \<comment> \<open>the frame of the entries, with the converted dates in the first column\<close>
  "frame_of lib entries dates =
     [(col_Date, map Timestamp dates),
      (col_Max_Temp, map Value (infer_column lib (map (\<lambda>e. the (field ''tempmax'' e)) entries))),
      (col_Min_Temp, map Value (infer_column lib (map (\<lambda>e. the (field ''tempmin'' e)) entries))),
      (col_Avg_Temp, map Value (infer_column lib (map (\<lambda>e. the (field ''temp'' e)) entries))),
      (col_Conditions, map Value (infer_column lib (map (\<lambda>e. the (field ''conditions'' e)) entries))),
      (col_Precip, map Value (infer_column lib (map precip_or_0 entries)))]"

definition is_string :: "'f json \<Rightarrow> bool" where
  "is_string v = (case v of JStr s \<Rightarrow> True | _ \<Rightarrow> False)"

definition is_number :: "'f json \<Rightarrow> bool" where
  \<comment> \<open>a float, or an \<open>int\<close> that fits 64 bits\<close>
  "is_number v = (case v of JInt i \<Rightarrow> - (2 ^ 63) \<le> i \<and> i < 2 ^ 63 | JFloat x \<Rightarrow> True | _ \<Rightarrow> False)"

definition well_formed_entry :: "'f json \<Rightarrow> bool" where
  \<comment> \<open>an entry as the provider documents it: an object whose \<open>datetime\<close> and \<open>conditions\<close>
      are strings, whose three temperatures are numbers, and whose \<open>precip\<close>, if it has
      one, is a number or \<open>null\<close>\<close>
  "well_formed_entry e \<longleftrightarrow>
     (case field ''datetime'' e of None \<Rightarrow> False | Some v \<Rightarrow> is_string v)
     \<and> (case field ''tempmax'' e of None \<Rightarrow> False | Some v \<Rightarrow> is_number v)
     \<and> (case field ''tempmin'' e of None \<Rightarrow> False | Some v \<Rightarrow> is_number v)
     \<and> (case field ''temp'' e of None \<Rightarrow> False | Some v \<Rightarrow> is_number v)
     \<and> (case field ''conditions'' e of None \<Rightarrow> False | Some v \<Rightarrow> is_string v)
     \<and> (case field ''precip'' e of None \<Rightarrow> True | Some v \<Rightarrow> is_number v \<or> is_null v)"

definition date_cells :: "'f json list \<Rightarrow> ('f, 'd) cell list" where
  \<comment> \<open>the \<open>Date\<close> column of the entries, as \<open>pd.to_datetime\<close> receives it\<close>
  "date_cells entries = map (\<lambda>e. Value (the (field ''datetime'' e))) entries"

definition stored_as :: "('f, 'd) library \<Rightarrow> 'f json \<Rightarrow> ('f, 'd) cell \<Rightarrow> bool" where
  \<comment> \<open>the cell holds the value, or the float that pandas stores for it in a float
      column: the equal float for an \<open>int\<close>, NaN for \<open>null\<close>\<close>
  "stored_as lib v c \<longleftrightarrow> c = Value v \<or> c = Value (to_float lib v)"

definition cache_hit :: "('f, 'd) cache \<Rightarrow> int \<Rightarrow> cache_key \<Rightarrow> bool" where
  \<comment> \<open>the cache holds an entry for the key that has not expired\<close>
  "cache_hit cache now key = (case cache key of None \<Rightarrow> False | Some (expires, out) \<Rightarrow> now < expires)"

definition cell_before :: "('d \<Rightarrow> 'd \<Rightarrow> bool) \<Rightarrow> ('f, 'd) cell \<Rightarrow> ('f, 'd) cell \<Rightarrow> bool" where
  \<comment> \<open>an order on timestamps, lifted to the cells of a column\<close>
  "cell_before before a b =
     (case a of Timestamp x \<Rightarrow> (case b of Timestamp y \<Rightarrow> before x y | _ \<Rightarrow> False) | _ \<Rightarrow> False)"

definition http_error_text :: "'f response \<Rightarrow> string" where
  \<comment> \<open>the text of the \<open>HTTPError\<close> for a status from 400 to 599\<close>
  "http_error_text r =
     decimal (status_code r)
       @ (if status_code r < 500 then '' Client Error: '' else '' Server Error: '')
       @ reason r @ '' for url: '' @ response_url r"

section \<open>Example data\<close>

text \<open>
  Concrete entries, bodies and libraries, on which the theorems below are evaluated. In
  the examples a float is kept as its text and a timestamp is a calendar date.
\<close>

definition digits_to_int :: "string \<Rightarrow> int option" where
  \<comment> \<open>the number written by a string of decimal digits\<close>
  "digits_to_int s =
     (if s \<noteq> [] \<and> list_all (\<lambda>c. c \<in> set ''0123456789'') s
      then Some (foldl (\<lambda>n c. 10 * n + (of_char c - 48)) 0 s) else None)"

definition iso_to_datetime :: "string json \<Rightarrow> exn + date" where
  \<comment> \<open>a conversion that reads \<open>YYYY-MM-DD\<close>, for the examples\<close>
  "iso_to_datetime v =
     (case v of
        JStr s \<Rightarrow>
          (case (digits_to_int (take 4 s), digits_to_int (take 2 (drop 5 s)), digits_to_int (drop 8 s)) of
             (Some y, Some m, Some d) \<Rightarrow> datetime y m d
           | _ \<Rightarrow> Inl (ValueError ''unknown datetime string format''))
      | _ \<Rightarrow> Inl TypeError)"

definition answering :: "string get_result \<Rightarrow> (string, date) library" where
  \<comment> \<open>a library whose network gives the same answer to every request\<close>
  "answering a =
     \<lparr>requests_get = (\<lambda>req. a),
      float_of_int = (\<lambda>i. decimal i @ ''.0''),
      nan = ''nan'',
      to_datetime_value = (\<lambda>col c. case c of Value v \<Rightarrow> iso_to_datetime v | Timestamp d \<Rightarrow> Inr d),
      repr = (\<lambda>v. ''<repr>'')\<rparr>"

definition response_with :: "int \<Rightarrow> string \<Rightarrow> string json \<Rightarrow> string response" where
  \<comment> \<open>a response with a decoded body\<close>
  "response_with status text data =
     \<lparr>status_code = status, reason = text, response_url = ''https://weather.example/'',
      json = Inr data\<rparr>"

definition day_1 :: "string json" where
  \<comment> \<open>an entry with all six fields\<close>
  "day_1 = JObj [(''datetime'', JStr ''2025-11-01''), (''tempmax'', JFloat ''31.2''),
                 (''tempmin'', JFloat ''25.4''), (''temp'', JFloat ''28.0''),
                 (''conditions'', JStr ''Rain''), (''precip'', JFloat ''4.5'')]"

definition day_2 :: "string json" where
  \<comment> \<open>no \<open>precip\<close>\<close>
  "day_2 = JObj [(''datetime'', JStr ''2025-11-02''), (''tempmax'', JFloat ''30.0''),
                 (''tempmin'', JFloat ''24.9''), (''temp'', JFloat ''27.1''),
                 (''conditions'', JStr ''Clear'')]"

definition day_null :: "string json" where
  \<comment> \<open>\<open>precip\<close> is \<open>null\<close>\<close>
  "day_null = JObj [(''datetime'', JStr ''2025-11-03''), (''tempmax'', JFloat ''30.5''),
                    (''tempmin'', JFloat ''25.0''), (''temp'', JFloat ''27.6''),
                    (''conditions'', JStr ''Clear''), (''precip'', JNull)]"

definition day_partial :: "string json" where
  \<comment> \<open>no \<open>temp\<close>\<close>
  "day_partial = JObj [(''datetime'', JStr ''2025-11-02''), (''tempmax'', JFloat ''30.0''),
                       (''tempmin'', JFloat ''24.9''), (''conditions'', JStr ''Clear'')]"

definition date_before :: "date \<Rightarrow> date \<Rightarrow> bool" where
  \<comment> \<open>the order of the calendar, by ordinal\<close>
  "date_before a b =
     (case a of (y, m, d) \<Rightarrow> case b of (y', m', d') \<Rightarrow> ymd2ord y m d < ymd2ord y' m' d')"

definition two_days :: "string json" where
  \<comment> \<open>a body with two entries\<close>
  "two_days = JObj [(''days'', JArr [day_1, day_2])]"

definition chennai_request :: request where
  \<comment> \<open>the request for Chennai, November 2025\<close>
  "chennai_request = build_request ''Chennai'' ''2025-11-01'' ''2025-11-30'' ''KEY''"

definition null_precip :: "string json" where
  \<comment> \<open>a body whose only entry has a \<open>null\<close> precipitation\<close>
  "null_precip = JObj [(''days'', JArr [day_null])]"

definition partial_days :: "string json" where
  \<comment> \<open>a body whose second entry lacks \<open>temp\<close>\<close>
  "partial_days = JObj [(''days'', JArr [day_1, day_partial])]"

definition no_days :: "string json" where
  \<comment> \<open>a body without \<open>days\<close>, with a message\<close>
  "no_days = JObj [(''errorCode'', JInt 401), (''message'', JStr ''Invalid API key'')]"

definition empty_days :: "string json" where
  \<comment> \<open>a body whose \<open>days\<close> list is empty\<close>
  "empty_days = JObj [(''days'', JArr [])]"

definition column_of :: "('f, 'd) library \<Rightarrow> string \<Rightarrow> 'f json list \<Rightarrow> ('f, 'd) cell list" where
  \<comment> \<open>the column that \<open>pd.DataFrame\<close> builds from one required field of the entries\<close>
  "column_of lib k entries = map Value (infer_column lib (map (\<lambda>e. the (field k e)) entries))"

definition precip_column_of :: "('f, 'd) library \<Rightarrow> 'f json list \<Rightarrow> ('f, 'd) cell list" where
  \<comment> \<open>the column that \<open>pd.DataFrame\<close> builds from the \<open>precip\<close> of the entries\<close>
  "precip_column_of lib entries = map Value (infer_column lib (map precip_or_0 entries))"

definition one_null_beside :: "string json" where
  \<comment> \<open>a body with a \<open>null\<close> precipitation beside a number\<close>
  "one_null_beside = JObj [(''days'', JArr [day_1, day_null])]"


definition no_cache :: "(string, date) cache" where
  \<comment> \<open>the cache of a process that has just started\<close>
  "no_cache = (\<lambda>key. None)"

definition two_days_lib :: "(string, date) library" where
  "two_days_lib = answering (GetReturns (response_with 200 ''OK'' two_days))"

definition two_days_frame :: "(string, date) dataframe" where
  "two_days_frame =
     [(col_Date, [Timestamp (2025, 11, 1), Timestamp (2025, 11, 2)]),
      (col_Max_Temp, [Value (JFloat ''31.2''), Value (JFloat ''30.0'')]),
      (col_Min_Temp, [Value (JFloat ''25.4''), Value (JFloat ''24.9'')]),
      (col_Avg_Temp, [Value (JFloat ''28.0''), Value (JFloat ''27.1'')]),
      (col_Conditions, [Value (JStr ''Rain''), Value (JStr ''Clear'')]),
      (col_Precip, [Value (JFloat ''4.5''), Value (JFloat ''0.0'')])]"

definition chennai_key :: cache_key where
  "chennai_key = (''Chennai'', 2025, 11, ''KEY'')"

definition warm_cache :: "(string, date) cache" where
  \<comment> \<open>the cache after a first call for Chennai, November 2025, at time 0\<close>
  "warm_cache = no_cache(chennai_key \<mapsto> (3600, Returned_df two_days_frame))"

definition offline_lib :: "(string, date) library" where
  \<comment> \<open>a library whose network is down\<close>
  "offline_lib = answering (GetRaises (RequestException ''Connection refused''))"

section \<open>The calendar arithmetic\<close>

lemma month_cases:
  fixes m :: int
  assumes "1 \<le> m" "m \<le> 12"
  obtains "m = 1" | "m = 2" | "m = 3" | "m = 4" | "m = 5" | "m = 6"
    | "m = 7" | "m = 8" | "m = 9" | "m = 10" | "m = 11" | "m = 12"
proof -
  have l: "[1..12::int] = [1, 2, 3, 4, 5, 6, 7, 8, 9, 10, 11, 12]" by code_simp
  have "m \<in> set [1..12]" using assms by simp
  then show ?thesis unfolding l using that by auto
qed

lemma div_mod_offset:
  fixes R :: int
  assumes "0 \<le> R" "R < d"
  shows "(a * d + R) div d = a" "(a * d + R) mod d = R"
  using assms by (simp_all add: div_pos_pos_trivial)

lemma year_decomp:
  fixes y :: int
  obtains a b c e where "y - 1 = 400 * a + 100 * b + 4 * c + e"
    "0 \<le> b" "b \<le> 3" "0 \<le> c" "c \<le> 24" "0 \<le> e" "e \<le> 3"
proof -
  define a where "a = (y - 1) div 400"
  define r where "r = (y - 1) mod 400"
  define b where "b = r div 100"
  define r2 where "r2 = r mod 100"
  define c where "c = r2 div 4"
  define e where "e = r2 mod 4"
  have Y: "y - 1 = 400 * a + r" by (simp add: a_def r_def)
  have r: "0 \<le> r" "r < 400" by (simp_all add: r_def)
  have R: "r = 100 * b + r2" by (simp add: b_def r2_def)
  have r2: "0 \<le> r2" "r2 < 100" by (simp_all add: r2_def)
  have R2: "r2 = 4 * c + e" by (simp add: c_def e_def)
  have e: "0 \<le> e" "e < 4" by (simp_all add: e_def)
  have b: "0 \<le> b" "b \<le> 3" using r R r2 by linarith+
  have c: "0 \<le> c" "c \<le> 24" using r2 R2 e by linarith+
  show ?thesis
    using that [of a b c e] Y R R2 b c e by simp
qed

lemma days_before_year_decomp:
  assumes "y - 1 = 400 * a + 100 * b + 4 * c + e"
    "0 \<le> b" "b \<le> 3" "0 \<le> c" "c \<le> 24" "0 \<le> e" "e \<le> 3"
  shows "days_before_year y = 146097 * a + 36524 * b + 1461 * c + 365 * e"
proof -
  have d4: "(y - 1) div 4 = 100 * a + 25 * b + c"
    using div_mod_offset(1) [of e 4 "100 * a + 25 * b + c"] assms by (simp add: algebra_simps)
  have d100: "(y - 1) div 100 = 4 * a + b"
    using div_mod_offset(1) [of "4 * c + e" 100 "4 * a + b"] assms by (simp add: algebra_simps)
  have d400: "(y - 1) div 400 = a"
    using div_mod_offset(1) [of "100 * b + 4 * c + e" 400 a] assms by (simp add: algebra_simps)
  show ?thesis
    unfolding days_before_year_def Let_def d4 d100 d400 using assms(1) by simp
qed

lemma dvd_small:
  fixes r :: int
  assumes "0 < r" "r \<le> d"
  shows "d dvd r \<longleftrightarrow> r = d"
  using assms zdvd_imp_le [of d r] by auto

lemma mod_zero_offset:
  fixes r :: int
  assumes "0 < r" "r \<le> d"
  shows "(d * q + r) mod d = 0 \<longleftrightarrow> r = d"
proof -
  have "(d * q + r) mod d = 0 \<longleftrightarrow> d dvd (d * q + r)" by (rule mod_eq_0_iff_dvd)
  also have "\<dots> \<longleftrightarrow> d dvd r" by (metis dvd_add_right_iff dvd_triv_left)
  finally show ?thesis using dvd_small [OF assms] by simp
qed

lemma is_leap_decomp:
  assumes "y - 1 = 400 * a + 100 * b + 4 * c + e"
    "0 \<le> b" "b \<le> 3" "0 \<le> c" "c \<le> 24" "0 \<le> e" "e \<le> 3"
  shows "is_leap y \<longleftrightarrow> e = 3 \<and> (c \<noteq> 24 \<or> b = 3)"
proof -
  have y4: "y = 4 * (100 * a + 25 * b + c) + (e + 1)" using assms(1) by simp
  have y100: "y = 100 * (4 * a + b) + (4 * c + e + 1)" using assms(1) by simp
  have y400: "y = 400 * a + (100 * b + 4 * c + e + 1)" using assms(1) by simp
  have m4: "y mod 4 = 0 \<longleftrightarrow> e + 1 = 4"
    using mod_zero_offset [of "e + 1" 4 "100 * a + 25 * b + c"] assms y4 by simp
  have m100: "y mod 100 = 0 \<longleftrightarrow> 4 * c + e + 1 = 100"
    using mod_zero_offset [of "4 * c + e + 1" 100 "4 * a + b"] assms y100 by simp
  have m400: "y mod 400 = 0 \<longleftrightarrow> 100 * b + 4 * c + e + 1 = 400"
    using mod_zero_offset [of "100 * b + 4 * c + e + 1" 400 a] assms y400 by simp
  show ?thesis
    unfolding is_leap_def m4 m100 m400 using assms(2-) by auto
qed

lemma ord2ymd_in_year:
  assumes "0 \<le> k" "k < 365"
  shows "ord2ymd (days_before_year y + k + 1) = (y, month_day (is_leap y) k)"
proof -
  obtain a b c e where dec: "y - 1 = 400 * a + 100 * b + 4 * c + e"
    "0 \<le> b" "b \<le> 3" "0 \<le> c" "c \<le> 24" "0 \<le> e" "e \<le> 3"
    by (rule year_decomp)
  define R3 where "R3 = e * 365 + k"
  define R2 where "R2 = c * 1461 + R3"
  define R1 where "R1 = b * 36524 + R2"
  define n0 where "n0 = days_before_year y + k + 1"
  have R3': "R3 \<le> 1459" using assms dec by (simp add: R3_def)
  have R2': "R2 \<le> 36523" using R3' dec by (simp add: R2_def)
  have R3: "0 \<le> R3" "R3 < 1461" using assms dec R3' by (simp_all add: R3_def)
  have R2: "0 \<le> R2" "R2 < 36524" using R3 dec R2' by (simp_all add: R2_def)
  have R1: "0 \<le> R1" "R1 < 146097" using R2 R2' dec by (simp_all add: R1_def)
  have N: "n0 - 1 = a * 146097 + R1"
    by (simp add: n0_def days_before_year_decomp [OF dec] R1_def R2_def R3_def)
  have s1: "(n0 - 1) div DI400Y = a" "(n0 - 1) mod DI400Y = R1"
    unfolding N DI400Y_def using div_mod_offset [OF R1] by simp_all
  have s2: "R1 div DI100Y = b" "R1 mod DI100Y = R2"
    unfolding R1_def DI100Y_def using div_mod_offset [OF R2] by simp_all
  have s3: "R2 div DI4Y = c" "R2 mod DI4Y = R3"
    unfolding R2_def DI4Y_def using div_mod_offset [OF R3] by simp_all
  have s4: "R3 div 365 = e" "R3 mod 365 = k"
    unfolding R3_def using div_mod_offset [OF assms] by simp_all
  have yr: "a * 400 + 1 + (b * 100 + c * 4 + e) = y" using dec(1) by simp
  have ne: "\<not> (e = 4 \<or> b = 4)" using dec by simp
  have lp: "(e = 3 \<and> (c \<noteq> 24 \<or> b = 3)) = is_leap y"
    using is_leap_decomp [OF dec] by simp
  have "ord2ymd n0 = (y, month_day (is_leap y) k)"
    unfolding ord2ymd_def Let_def s1 s2 s3 s4 yr month_day_def using ne lp by auto
  then show ?thesis by (simp add: n0_def)
qed

lemma month_end:
  assumes "1 \<le> m" "m \<le> 11"
  shows "ord2ymd (ymd2ord y (m + 1) 1 - 1) = (y, m, days_in_month y m)"
proof -
  define k where "k = days_before_month y (m + 1) - 1"
  have "m \<le> 12" using assms by simp
  with assms(1) have "0 \<le> k \<and> k < 365 \<and> month_day (is_leap y) k = (m, days_in_month y m)"
  proof (cases rule: month_cases)
    case 12
    then show ?thesis using assms by simp
  qed (simp_all add: k_def days_before_month_def days_in_month_def month_day_def
        DAYS_BEFORE_MONTH_def DAYS_IN_MONTH_def)
  moreover have "ymd2ord y (m + 1) 1 - 1 = days_before_year y + k + 1"
    by (simp add: ymd2ord_def k_def)
  ultimately show ?thesis
    using ord2ymd_in_year [of k y] by (simp add: add.commute add.left_commute)
qed

lemma days_before_year_bounds:
  assumes "1 \<le> year" "year \<le> 9999"
  shows "0 \<le> days_before_year year" "days_before_year year \<le> 3651694"
proof -
  obtain a b c e where dec: "year - 1 = 400 * a + 100 * b + 4 * c + e"
    "0 \<le> b" "b \<le> 3" "0 \<le> c" "c \<le> 24" "0 \<le> e" "e \<le> 3"
    by (rule year_decomp)
  have "0 \<le> 400 * a + 399" using assms(1) dec by linarith
  then have a0: "0 \<le> a" by linarith
  have "400 * a \<le> 9998" using assms(2) dec by linarith
  then have a24: "a \<le> 24" by linarith
  have eq: "days_before_year year = 146097 * a + 36524 * b + 1461 * c + 365 * e"
    by (rule days_before_year_decomp [OF dec])
  show "0 \<le> days_before_year year" unfolding eq using a0 dec by simp
  have "days_before_year year = 365 * (year - 1) + 97 * a + 24 * b + c"
    unfolding eq dec(1) by simp
  moreover have "365 * (year - 1) \<le> 3649270" using assms(2) by simp
  moreover have "97 * a \<le> 2328" using a24 by simp
  moreover have "24 * b \<le> 72" using dec(3) by simp
  ultimately show "days_before_year year \<le> 3651694" using dec(5) by simp
qed

lemma days_before_month_bounds:
  assumes "1 \<le> m" "m \<le> 12"
  shows "0 \<le> days_before_month y m \<and> days_before_month y m \<le> 335"
  using assms by (cases rule: month_cases) (simp_all add: days_before_month_def DAYS_BEFORE_MONTH_def)

lemma days_in_month_range:
  assumes "1 \<le> m" "m \<le> 12"
  shows "28 \<le> days_in_month y m \<and> days_in_month y m \<le> 31"
  using assms by (cases rule: month_cases) (simp_all add: days_in_month_def DAYS_IN_MONTH_def)

lemma days_before_next_month:
  assumes "1 \<le> m" "m \<le> 11"
  shows "days_before_month y (m + 1) = days_before_month y m + days_in_month y m"
proof -
  have "m \<le> 12" using assms by simp
  with assms(1) show ?thesis
  proof (cases rule: month_cases)
    case 12
    then show ?thesis using assms by simp
  qed (simp_all add: days_before_month_def days_in_month_def DAYS_BEFORE_MONTH_def DAYS_IN_MONTH_def)
qed

lemma end_datetime_eq:
  assumes "1 \<le> month" "month \<le> 11" "1 \<le> year" "year \<le> 9999"
  shows "end_datetime year month = Inr (year, month, days_in_month year month)"
proof -
  have m1: "1 \<le> month + 1" "month + 1 \<le> 12" using assms by simp_all
  have dt: "datetime year (month + 1) 1 = Inr (year, month + 1, 1)"
    using assms days_in_month_range [OF m1, of year]
    by (simp add: datetime_def c_int_def MINYEAR_def MAXYEAR_def)
  have ord: "ymd2ord year (month + 1) 1 - 1 = days_before_year year + days_before_month year (month + 1)"
    by (simp add: ymd2ord_def)
  have lo: "28 \<le> days_before_month year (month + 1)"
    using days_before_next_month [OF assms(1,2), of year]
      days_before_month_bounds [of month year] days_in_month_range [of month year] assms
    by simp
  have pos: "0 < ymd2ord year (month + 1) 1 - 1"
    unfolding ord using days_before_year_bounds(1) [OF assms(3,4)] lo by linarith
  have up: "ymd2ord year (month + 1) 1 - 1 \<le> MAXORDINAL"
    unfolding ord MAXORDINAL_def
    using days_before_year_bounds(2) [OF assms(3,4)] days_before_month_bounds [OF m1, of year]
    by linarith
  show ?thesis
    unfolding end_datetime_def dt minus_days_def
    using pos up month_end [OF assms(1,2), of year] by (simp add: Let_def)
qed

lemma str_nat_digit: "n < 10 \<Longrightarrow> length (str_nat n) = 1"
  by (subst str_nat.simps) simp

lemma str_nat_length_step: "10 \<le> n \<Longrightarrow> length (str_nat n) = Suc (length (str_nat (n div 10)))"
  by (subst str_nat.simps) simp

lemma str_nat_length4:
  assumes "1000 \<le> n" "n \<le> 9999"
  shows "length (str_nat n) = 4"
proof -
  have a: "10 \<le> n" "10 \<le> n div 10" "10 \<le> n div 10 div 10" "n div 10 div 10 div 10 < 10"
    using assms by simp_all
  show ?thesis
    by (simp add: str_nat_length_step a str_nat_digit)
qed

lemma zfill_id: "w \<le> length s \<Longrightarrow> zfill w s = s"
  by (simp add: zfill_def)

lemma within_str_digits:
  assumes "\<bar>i\<bar> < 10000"
  shows "\<not> exceeds_str_digits i"
proof -
  have "(10::int) ^ 4 \<le> 10 ^ int_max_str_digits"
    unfolding int_max_str_digits_def by (rule power_increasing) simp_all
  then have "(10000::int) \<le> 10 ^ int_max_str_digits" by simp
  then show ?thesis using assms unfolding exceeds_str_digits_def by linarith
qed

lemma str_int_small: "\<bar>i\<bar> < 10000 \<Longrightarrow> str_int i = Inr (decimal i)"
  by (simp add: str_int_def within_str_digits)

lemma fmt_02d_small:
  "0 \<le> m \<Longrightarrow> m < 10000 \<Longrightarrow> fmt_02d m = Inr (zfill 2 (str_nat (nat m)))"
  by (simp add: fmt_02d_def within_str_digits)

lemma decimal_nonneg: "0 \<le> i \<Longrightarrow> decimal i = str_nat (nat i)"
  by (simp add: decimal_def)

section \<open>The date range\<close>

lemma start_date_small:
  assumes "0 \<le> month" "month < 10000" "\<not> exceeds_str_digits year"
  shows "start_date year month = Inr (decimal year @ ''-'' @ zfill 2 (str_nat (nat month)) @ ''-01'')"
  using assms by (simp add: start_date_def str_int_def fmt_02d_small)

lemma end_date_eq:
  assumes "1 \<le> month" "month \<le> 11" "1 \<le> year" "year \<le> 9999"
  shows "end_date year month
           = Inr (decimal year @ ''-'' @ zfill 2 (str_nat (nat month))
                    @ ''-'' @ zfill 2 (str_nat (nat (days_in_month year month))))"
  using assms end_datetime_eq [OF assms]
  by (simp add: end_date_def strftime_Ymd_def decimal_nonneg)

text \<open>
  Claim C2, amended. For every month from 1 to 12, and every year from 1 to 9999 (for
  December every year of at most 4300 decimal digits), the range starts at day 1 of the
  month and ends at its last calendar day: for December the end is written
  \<open>year-12-31\<close>; for another month the end is the date one day before the first of the
  next month, which is day \<open>days_in_month year month\<close> of the month. February 2024 spans
  days 1 to 29 and February 2023 days 1 to 28.
\<close>

theorem month_range:
  assumes "1 \<le> month" "month \<le> 12"
    and "(1 \<le> year \<and> year \<le> 9999) \<or> (month = 12 \<and> \<not> exceeds_str_digits year)"
  shows "start_date year month
           = Inr (decimal year @ ''-'' @ zfill 2 (str_nat (nat month)) @ ''-01'')
       \<and> (if month = 12
          then end_date year month = Inr (decimal year @ ''-12-31'')
             \<and> days_in_month year month = 31
          else end_datetime year month = Inr (year, month, days_in_month year month)
             \<and> end_date year month
                 = Inr (decimal year @ ''-'' @ zfill 2 (str_nat (nat month))
                          @ ''-'' @ zfill 2 (str_nat (nat (days_in_month year month))))
             \<and> ymd2ord year month (days_in_month year month) + 1 = ymd2ord year (month + 1) 1)"
proof -
  have lim: "\<not> exceeds_str_digits year"
    using assms(3) within_str_digits [of year] by auto
  have start: "start_date year month
      = Inr (decimal year @ ''-'' @ zfill 2 (str_nat (nat month)) @ ''-01'')"
    using assms(1,2) lim by (intro start_date_small) simp_all
  show ?thesis
  proof (cases "month = 12")
    case True
    then show ?thesis
      using start lim by (simp add: end_date_def str_int_def days_in_month_def DAYS_IN_MONTH_def)
  next
    case False
    then have m: "1 \<le> month" "month \<le> 11" and y: "1 \<le> year" "year \<le> 9999"
      using assms by simp_all
    have "ymd2ord year month (days_in_month year month) + 1 = ymd2ord year (month + 1) 1"
      using days_before_next_month [OF m, of year] by (simp add: ymd2ord_def)
    then show ?thesis
      using False start end_datetime_eq [OF m y] end_date_eq [OF m y] by simp
  qed
qed

text \<open>February 2024, February 2023, December 2025 and January 999.\<close>

theorem month_range_witness:
  "start_date 2024 2 = Inr ''2024-02-01'' \<and> end_date 2024 2 = Inr ''2024-02-29''
   \<and> start_date 2023 2 = Inr ''2023-02-01'' \<and> end_date 2023 2 = Inr ''2023-02-28''
   \<and> start_date 2025 12 = Inr ''2025-12-01'' \<and> end_date 2025 12 = Inr ''2025-12-31''
   \<and> start_date 999 1 = Inr ''999-01-01'' \<and> end_date 999 1 = Inr ''999-01-31''"
proof -
  have d: "days_in_month 2024 2 = 29" "days_in_month 2023 2 = 28" "days_in_month 999 1 = 31"
    by (simp_all add: days_in_month_def is_leap_def DAYS_IN_MONTH_def)
  have s: "decimal 2024 = ''2024''" "decimal 2023 = ''2023''" "decimal 2025 = ''2025''"
    "decimal 999 = ''999''" "zfill 2 (str_nat (Suc 0)) = ''01''"
    "zfill 2 (str_nat 2) = ''02''" "zfill 2 (str_nat 12) = ''12''"
    "zfill 2 (str_nat 28) = ''28''" "zfill 2 (str_nat 29) = ''29''" "zfill 2 (str_nat 31) = ''31''"
    by (simp_all add: decimal_def str_nat.simps zfill_def)
  show ?thesis
    using month_range [of 2 2024] month_range [of 2 2023] month_range [of 12 2025]
      month_range [of 1 999]
    by (simp add: d s)
qed

text \<open>
  For the year 0 and February the \<open>datetime\<close> constructor raises, and no range is
  resolved; for December and a year of 4301 digits the f-string raises.
\<close>

theorem month_range_counterexample:
  "end_date 0 2 = Inl DatetimeValueError \<and> end_datetime 0 2 = Inl DatetimeValueError
   \<and> end_date (10 ^ int_max_str_digits) 12 = Inl StrDigitsValueError"
  by (simp add: end_date_def end_datetime_def datetime_def c_int_def MINYEAR_def str_int_def
      exceeds_str_digits_def)

text \<open>
  Claim C9, amended. The range resolution takes no environment. For a month from 1 to
  12 it returns a range, without an exception, exactly when the year is from 1 to 9999,
  or the month is 12 and the year has at most 4300 decimal digits; in every other case
  line 36 or the \<open>datetime\<close> constructor raises.
\<close>

theorem range_total:
  assumes "1 \<le> month" "month \<le> 12"
  shows "(\<exists>s e. start_date year month = Inr s \<and> end_date year month = Inr e)
         \<longleftrightarrow> (1 \<le> year \<and> year \<le> 9999) \<or> (month = 12 \<and> \<not> exceeds_str_digits year)"
proof
  assume "\<exists>s e. start_date year month = Inr s \<and> end_date year month = Inr e"
  then obtain s e where s: "start_date year month = Inr s" and e: "end_date year month = Inr e"
    by blast
  show "(1 \<le> year \<and> year \<le> 9999) \<or> (month = 12 \<and> \<not> exceeds_str_digits year)"
  proof (cases "month = 12")
    case True
    have "\<not> exceeds_str_digits year"
      using s by (auto simp: start_date_def str_int_def split: if_splits)
    with True show ?thesis by simp
  next
    case False
    then have "\<exists>d. datetime year (month + 1) 1 = Inr d"
      using e by (auto simp: end_date_def end_datetime_def split: sum.splits)
    then have "1 \<le> year \<and> year \<le> 9999"
      by (auto simp: datetime_def MINYEAR_def MAXYEAR_def split: if_splits)
    then show ?thesis by simp
  qed
next
  assume a: "(1 \<le> year \<and> year \<le> 9999) \<or> (month = 12 \<and> \<not> exceeds_str_digits year)"
  have lim: "\<not> exceeds_str_digits year"
    using a within_str_digits [of year] by auto
  have "start_date year month
      = Inr (decimal year @ ''-'' @ zfill 2 (str_nat (nat month)) @ ''-01'')"
    using assms lim by (intro start_date_small) simp_all
  moreover have "\<exists>e. end_date year month = Inr e"
  proof (cases "month = 12")
    case True
    then show ?thesis using lim by (simp add: end_date_def str_int_def)
  next
    case False
    then show ?thesis
      using a assms end_date_eq [of month year] by simp
  qed
  ultimately show "\<exists>s e. start_date year month = Inr s \<and> end_date year month = Inr e"
    by blast
qed

text \<open>November 2025 resolves; January 10000 does not.\<close>

theorem range_total_witness:
  "(\<exists>s e. start_date 2025 11 = Inr s \<and> end_date 2025 11 = Inr e)
   \<and> \<not> (\<exists>s e. start_date 10000 1 = Inr s \<and> end_date 10000 1 = Inr e)"
  using range_total [of 11 2025] range_total [of 1 10000] by simp

text \<open>
  For January the \<open>datetime\<close> constructor raises \<open>ValueError\<close> for the year 10000 and
  \<open>OverflowError\<close> for the year \<open>2 ^ 31\<close>; for December and a year of 4301 digits line 36
  raises.
\<close>

theorem range_total_counterexample:
  "end_date 10000 1 = Inl DatetimeValueError
   \<and> end_date (2 ^ 31) 1 = Inl OverflowError
   \<and> start_date (10 ^ int_max_str_digits) 12 = Inl StrDigitsValueError"
  by (simp add: end_date_def end_datetime_def datetime_def c_int_def MINYEAR_def MAXYEAR_def
      start_date_def str_int_def exceeds_str_digits_def)

section \<open>The loop over the entries\<close>

lemma make_row_required:
  assumes "has_required e"
  shows "make_row e = Inr (row_of e)"
proof (cases e)
  case (JObj items)
  with assms show ?thesis
    by (auto simp: has_required_def field_def make_row_def py_getitem_def py_get_def row_of_def
        split: option.splits)
qed (use assms in \<open>simp_all add: has_required_def field_def\<close>)

lemma make_row_missing:
  assumes "\<not> has_required e"
  shows "\<exists>x. make_row e = Inl x"
proof (cases e)
  case (JObj items)
  with assms show ?thesis
    by (auto simp: has_required_def field_def make_row_def py_getitem_def py_get_def
        split: option.splits)
qed (simp_all add: make_row_def py_getitem_def)

lemma append_days_required:
  assumes "list_all has_required ds"
  shows "append_days acc ds = Inr (acc @ map row_of ds)"
  using assms by (induction ds arbitrary: acc) (simp_all add: make_row_required)

lemma append_days_missing:
  assumes "\<not> list_all has_required ds"
  shows "\<exists>x. append_days acc ds = Inl x"
  using assms
proof (induction ds arbitrary: acc)
  case Nil
  then show ?case by simp
next
  case (Cons d ds)
  show ?case
  proof (cases "has_required d")
    case True
    with Cons show ?thesis by (simp add: make_row_required)
  next
    case False
    then obtain x where "make_row d = Inl x" using make_row_missing by blast
    then show ?thesis by simp
  qed
qed

lemma convert_cells_all:
  assumes "map conv col = map Inr dates"
  shows "convert_cells conv col = Inr (map Timestamp dates)"
  using assms
proof (induction col arbitrary: dates)
  case Nil
  then show ?case by simp
next
  case (Cons c cs)
  then obtain d ds where "dates = d # ds" by (cases dates) auto
  with Cons show ?case by simp
qed

section \<open>The dtype inference\<close>

lemma infer_column_length: "length (infer_column lib vs) = length vs"
  by (simp add: infer_column_def)

lemma infer_column_nth:
  assumes "i < length vs"
  shows "stored_as lib (vs ! i) (map Value (infer_column lib vs) ! i)"
  using assms by (simp add: infer_column_def stored_as_def)

lemma infer_column_strings:
  assumes "list_all is_string vs"
  shows "infer_column lib vs = vs"
proof (cases vs)
  case Nil
  then show ?thesis by (simp add: infer_column_def)
next
  case (Cons v ws)
  then have "is_string v" using assms by simp
  then have "\<not> is_number_or_null v"
    by (cases v) (simp_all add: is_string_def is_number_or_null_def)
  then show ?thesis using Cons by (simp add: infer_column_def)
qed

section \<open>Normalising the decoded body\<close>

lemma days_present:
  assumes "map_of items ''days'' = Some days"
  shows "py_in ''days'' (JObj items) = Inr True" "py_getitem (JObj items) ''days'' = Inr days"
proof -
  have "''days'' \<in> fst ` set items" using assms by (metis map_of_eq_None_iff option.distinct(1))
  then show "py_in ''days'' (JObj items) = Inr True" by (simp add: py_in_def)
  show "py_getitem (JObj items) ''days'' = Inr days" using assms by (simp add: py_getitem_def)
qed

lemma DataFrame_rows:
  assumes "entries \<noteq> []"
  shows "DataFrame lib (map row_of entries)
      = [(col_Date, map Value (infer_column lib (map (\<lambda>e. the (field ''datetime'' e)) entries))),
         (col_Max_Temp, map Value (infer_column lib (map (\<lambda>e. the (field ''tempmax'' e)) entries))),
         (col_Min_Temp, map Value (infer_column lib (map (\<lambda>e. the (field ''tempmin'' e)) entries))),
         (col_Avg_Temp, map Value (infer_column lib (map (\<lambda>e. the (field ''temp'' e)) entries))),
         (col_Conditions, map Value (infer_column lib (map (\<lambda>e. the (field ''conditions'' e)) entries))),
         (col_Precip, map Value (infer_column lib (map precip_or_0 entries)))]"
  using assms by (simp add: DataFrame_def row_of_def comp_def precip_or_0_def [abs_def])

lemma normalize_entries:
  assumes days: "map_of items ''days'' = Some (JArr entries)"
    and ne: "entries \<noteq> []"
    and req: "list_all has_required entries"
    and col: "col = map Value (infer_column lib (map (\<lambda>e. the (field ''datetime'' e)) entries))"
    and conv: "map (to_datetime_value lib col) col = map Inr dates"
  shows "normalize lib (JObj items) = Inr (frame_of lib entries dates)"
proof -
  have loop: "append_days [] entries = Inr (map row_of entries)"
    using append_days_required [OF req, of "[]"] by simp
  have get: "df_getitem (DataFrame lib (map row_of entries)) col_Date = Inr col"
    unfolding DataFrame_rows [OF ne] col by (simp add: df_getitem_def)
  have dt: "to_datetime lib col = Inr (map Timestamp dates)"
    unfolding to_datetime_def by (rule convert_cells_all [OF conv])
  have set: "df_setitem (DataFrame lib (map row_of entries)) col_Date (map Timestamp dates)
      = frame_of lib entries dates"
    unfolding DataFrame_rows [OF ne] by (simp add: df_setitem_def frame_of_def)
  show ?thesis
    unfolding normalize_def days_present [OF days]
    by (simp add: py_iter_def loop get dt set)
qed

lemma normalize_missing:
  assumes days: "map_of items ''days'' = Some (JArr entries)"
    and req: "\<not> list_all has_required entries"
  shows "\<exists>x. normalize lib (JObj items) = Inl x"
proof -
  obtain x where "append_days [] entries = Inl x"
    using append_days_missing [OF req] by blast
  then show ?thesis
    unfolding normalize_def days_present [OF days] by (simp add: py_iter_def)
qed



lemma fetch_unfold:
  assumes "start_date year month = Inr start_s"
    and "end_date year month = Inr end_s"
    and "req = build_request city start_s end_s api_key"
  shows "fetch_monthly_data lib city year month api_key
    = ([req], case try_block lib req of Inl e \<Rightarrow> Returned_None (except e) | Inr df \<Rightarrow> Returned_df df)"
  using assms by (simp add: fetch_monthly_data_def Let_def)

lemma try_block_response:
  assumes "requests_get lib req = GetReturns r" "raise_for_status r = Inr ()" "json r = Inr data"
  shows "try_block lib req = normalize lib data"
  using assms by (simp add: try_block_def)

lemma raise_for_status_ok:
  "\<not> (400 \<le> status_code r \<and> status_code r < 600) \<Longrightarrow> raise_for_status r = Inr ()"
  by (auto simp: raise_for_status_def)

lemma well_formed_required: "well_formed_entry e \<Longrightarrow> has_required e"
  by (auto simp: well_formed_entry_def has_required_def split: option.splits)

lemma well_formed_dates:
  assumes "list_all well_formed_entry entries"
  shows "map Value (infer_column lib (map (\<lambda>e. the (field ''datetime'' e)) entries))
           = date_cells entries"
proof -
  have "list_all is_string (map (\<lambda>e. the (field ''datetime'' e)) entries)"
    using assms by (auto simp: list_all_iff well_formed_entry_def split: option.splits)
  then show ?thesis by (simp add: infer_column_strings date_cells_def)
qed

section \<open>The examples\<close>

lemma start_date_2025_11: "start_date 2025 11 = Inr ''2025-11-01''"
  by (simp add: start_date_def str_int_small fmt_02d_small decimal_def zfill_def str_nat.simps)

lemma end_date_2025_11: "end_date 2025 11 = Inr ''2025-11-30''"
  using end_date_eq [of 11 2025]
  by (simp add: days_in_month_def DAYS_IN_MONTH_def decimal_def zfill_def str_nat.simps)

lemma iso_examples:
  "iso_to_datetime (JStr ''2025-11-01'') = Inr (2025, 11, 1)"
  "iso_to_datetime (JStr ''2025-11-02'') = Inr (2025, 11, 2)"
  "iso_to_datetime (JStr ''2025-11-03'') = Inr (2025, 11, 3)"
  by (simp_all add: iso_to_datetime_def digits_to_int_def datetime_def c_int_def MINYEAR_def
      MAXYEAR_def days_in_month_def DAYS_IN_MONTH_def)

lemma example_fields:
  "well_formed_entry day_1" "well_formed_entry day_2" "well_formed_entry day_null"
  "\<not> has_required day_partial"
  by (simp_all add: well_formed_entry_def has_required_def field_def is_string_def is_number_def
      is_null_def day_1_def day_2_def day_null_def day_partial_def)

lemma chennai_facts:
  "start_date 2025 11 = Inr ''2025-11-01''"
  "end_date 2025 11 = Inr ''2025-11-30''"
  "chennai_request = build_request ''Chennai'' ''2025-11-01'' ''2025-11-30'' ''KEY''"
  by (simp_all add: start_date_2025_11 end_date_2025_11 chennai_request_def)

lemma answering_get: "requests_get (answering a) req = a"
  by (simp add: answering_def)

lemma response_with_simps:
  "json (response_with s t d) = Inr d" "status_code (response_with s t d) = s"
  "reason (response_with s t d) = t"
  by (simp_all add: response_with_def)

lemma try_block_answering:
  assumes "\<not> (400 \<le> s \<and> s < 600)"
  shows "try_block (answering (GetReturns (response_with s t d))) req
           = normalize (answering (GetReturns (response_with s t d))) d"
  using assms by (auto simp: try_block_def answering_def response_with_def raise_for_status_def)

lemma example_columns:
  "column_of (answering a) ''tempmax'' [day_1, day_2] = [Value (JFloat ''31.2''), Value (JFloat ''30.0'')]"
  "column_of (answering a) ''tempmin'' [day_1, day_2] = [Value (JFloat ''25.4''), Value (JFloat ''24.9'')]"
  "column_of (answering a) ''temp'' [day_1, day_2] = [Value (JFloat ''28.0''), Value (JFloat ''27.1'')]"
  "column_of (answering a) ''conditions'' [day_1, day_2] = [Value (JStr ''Rain''), Value (JStr ''Clear'')]"
  "precip_column_of (answering a) [day_1, day_2] = [Value (JFloat ''4.5''), Value (JFloat ''0.0'')]"
  "date_cells [day_1, day_2] = [Value (JStr ''2025-11-01''), Value (JStr ''2025-11-02'')]"
  by (simp_all add: column_of_def precip_column_of_def precip_or_0_def date_cells_def infer_column_def
      is_number_or_null_def is_null_def is_int_def to_float_def field_def day_1_def day_2_def
      answering_def decimal_def str_nat.simps)

lemma example_conversion:
  "map (to_datetime_value (answering a) (date_cells [day_1, day_2])) (date_cells [day_1, day_2])
     = map Inr [(2025, 11, 1), (2025, 11, 2)]"
  by (simp add: example_columns answering_def iso_examples)

section \<open>The claims about the fetch\<close>

lemma sorted_wrt_Timestamp:
  "sorted_wrt before ds \<Longrightarrow> sorted_wrt (cell_before before) (map Timestamp ds)"
  by (simp add: sorted_wrt_map cell_before_def)

lemma fetch_entries:
  assumes "start_date year month = Inr start_s"
    and "end_date year month = Inr end_s"
    and "req = build_request city start_s end_s api_key"
    and "requests_get lib req = GetReturns r"
    and "\<not> (400 \<le> status_code r \<and> status_code r < 600)"
    and "json r = Inr (JObj items)"
    and "map_of items ''days'' = Some (JArr entries)"
    and "entries \<noteq> []"
    and "list_all well_formed_entry entries"
    and "map (to_datetime_value lib (date_cells entries)) (date_cells entries) = map Inr dates"
  shows "fetch_monthly_data lib city year month api_key
           = ([req], Returned_df (frame_of lib entries dates))"
proof -
  have req': "list_all has_required entries"
    using assms(9) by (auto simp: list_all_iff well_formed_required)
  have "try_block lib req = normalize lib (JObj items)"
    using assms(4,5,6) by (intro try_block_response raise_for_status_ok)
  also have "\<dots> = Inr (frame_of lib entries dates)"
    by (rule normalize_entries
          [OF assms(7,8) req' well_formed_dates [OF assms(9), symmetric] assms(10)])
  finally show ?thesis
    using fetch_unfold [OF assms(1,2,3), of lib] by simp
qed

lemma frame_of_columns:
  "frame_of lib entries dates
     = [(col_Date, map Timestamp dates),
        (col_Max_Temp, column_of lib ''tempmax'' entries),
        (col_Min_Temp, column_of lib ''tempmin'' entries),
        (col_Avg_Temp, column_of lib ''temp'' entries),
        (col_Conditions, column_of lib ''conditions'' entries),
        (col_Precip, precip_column_of lib entries)]"
  by (simp add: frame_of_def column_of_def precip_column_of_def)

lemma column_of_cell:
  "i < length entries \<Longrightarrow> stored_as lib (the (field k (entries ! i))) (column_of lib k entries ! i)"
  using infer_column_nth [of i "map (\<lambda>e. the (field k e)) entries" lib]
  by (simp add: column_of_def)

lemma precip_column_cell:
  "i < length entries \<Longrightarrow> stored_as lib (precip_or_0 (entries ! i)) (precip_column_of lib entries ! i)"
  using infer_column_nth [of i "map precip_or_0 entries" lib]
  by (simp add: precip_column_of_def)

text \<open>
  Claim C7. A well-formed payload is a response whose status is not an error status and
  whose body has a \<open>days\<close> list with at least one entry, every entry an object with the
  fields and the types the provider documents, and whose column of \<open>datetime\<close> values
  \<open>pd.to_datetime\<close> converts. For every such payload the fetch succeeds, and each column
  of the frame holds exactly one cell per entry, in the order of the \<open>days\<close> list: the
  cell of an entry holds the entry's value, or the equal float where pandas stores the
  column as floats; the dates are the converted \<open>datetime\<close> values and are never sorted
  again, so they ascend whenever the provider's dates do.
\<close>

theorem fetch_well_formed:
  assumes "start_date year month = Inr start_s"
    and "end_date year month = Inr end_s"
    and "req = build_request city start_s end_s api_key"
    and "requests_get lib req = GetReturns r"
    and "\<not> (400 \<le> status_code r \<and> status_code r < 600)"
    and "json r = Inr (JObj items)"
    and "map_of items ''days'' = Some (JArr entries)"
    and "entries \<noteq> []"
    and "list_all well_formed_entry entries"
    and "map (to_datetime_value lib (date_cells entries)) (date_cells entries) = map Inr dates"
  shows "fetch_monthly_data lib city year month api_key
           = ([req], Returned_df
                [(col_Date, map Timestamp dates),
                 (col_Max_Temp, column_of lib ''tempmax'' entries),
                 (col_Min_Temp, column_of lib ''tempmin'' entries),
                 (col_Avg_Temp, column_of lib ''temp'' entries),
                 (col_Conditions, column_of lib ''conditions'' entries),
                 (col_Precip, precip_column_of lib entries)])
       \<and> length dates = length entries
       \<and> (\<forall>k. length (column_of lib k entries) = length entries)
       \<and> length (precip_column_of lib entries) = length entries
       \<and> (\<forall>k. \<forall>i < length entries.
             stored_as lib (the (field k (entries ! i))) (column_of lib k entries ! i))
       \<and> (sorted_wrt before dates \<longrightarrow> sorted_wrt (cell_before before) (map Timestamp dates))"
proof -
  have "fetch_monthly_data lib city year month api_key
      = ([req], Returned_df (frame_of lib entries dates))"
    by (rule fetch_entries [OF assms])
  moreover have "length dates = length entries"
    using arg_cong [OF assms(10), of length] by (simp add: date_cells_def)
  moreover have "\<forall>k. length (column_of lib k entries) = length entries"
    by (simp add: column_of_def infer_column_length)
  moreover have "length (precip_column_of lib entries) = length entries"
    by (simp add: precip_column_of_def infer_column_length)
  ultimately show ?thesis
    by (simp add: frame_of_columns column_of_cell sorted_wrt_Timestamp)
qed

text \<open>Two entries for 1 and 2 November 2025 give two rows, in that order.\<close>

theorem fetch_well_formed_witness:
  "fetch_monthly_data (answering (GetReturns (response_with 200 ''OK'' two_days))) ''Chennai'' 2025 11 ''KEY''
     = ([chennai_request], Returned_df
          [(col_Date, [Timestamp (2025, 11, 1), Timestamp (2025, 11, 2)]),
           (col_Max_Temp, [Value (JFloat ''31.2''), Value (JFloat ''30.0'')]),
           (col_Min_Temp, [Value (JFloat ''25.4''), Value (JFloat ''24.9'')]),
           (col_Avg_Temp, [Value (JFloat ''28.0''), Value (JFloat ''27.1'')]),
           (col_Conditions, [Value (JStr ''Rain''), Value (JStr ''Clear'')]),
           (col_Precip, [Value (JFloat ''4.5''), Value (JFloat ''0.0'')])])
   \<and> sorted_wrt (cell_before date_before) [Timestamp (2025, 11, 1), Timestamp (2025, 11, 2)]"
proof -
  let ?lib = "answering (GetReturns (response_with 200 ''OK'' two_days))"
  have srt: "sorted_wrt date_before [(2025, 11, 1), (2025, 11, 2)]"
    by (simp add: date_before_def ymd2ord_def)
  have wf: "list_all well_formed_entry [day_1, day_2]"
    by (simp add: example_fields)
  have t: "fetch_monthly_data ?lib ''Chennai'' 2025 11 ''KEY''
           = ([chennai_request], Returned_df
                [(col_Date, map Timestamp [(2025, 11, 1), (2025, 11, 2)]),
                 (col_Max_Temp, column_of ?lib ''tempmax'' [day_1, day_2]),
                 (col_Min_Temp, column_of ?lib ''tempmin'' [day_1, day_2]),
                 (col_Avg_Temp, column_of ?lib ''temp'' [day_1, day_2]),
                 (col_Conditions, column_of ?lib ''conditions'' [day_1, day_2]),
                 (col_Precip, precip_column_of ?lib [day_1, day_2])])
       \<and> (sorted_wrt date_before [(2025, 11, 1), (2025, 11, 2)]
            \<longrightarrow> sorted_wrt (cell_before date_before) (map Timestamp [(2025, 11, 1), (2025, 11, 2)]))"
  proof -
    have get: "requests_get ?lib chennai_request = GetReturns (response_with 200 ''OK'' two_days)"
      by (simp add: answering_get)
    have st: "\<not> (400 \<le> status_code (response_with 200 ''OK'' two_days)
                \<and> status_code (response_with 200 ''OK'' two_days) < 600)"
      by (simp add: response_with_simps)
    have js: "json (response_with 200 ''OK'' two_days) = Inr (JObj [(''days'', JArr [day_1, day_2])])"
      by (simp add: response_with_simps two_days_def)
    have dy: "map_of [(''days'', JArr [day_1, day_2])] ''days'' = Some (JArr [day_1, day_2])"
      by simp
    have ne: "[day_1, day_2] \<noteq> []" by simp
    show ?thesis
      using fetch_well_formed [OF chennai_facts get st js dy ne wf example_conversion,
          of date_before]
      by blast
  qed
  show ?thesis
    using t srt by (simp add: example_columns)
qed

lemma col_Precip_lookup:
  "map_of [(col_Date, a), (col_Max_Temp, b), (col_Min_Temp, c), (col_Avg_Temp, d),
           (col_Conditions, e), (col_Precip, f)] col_Precip = Some f"
  by (simp add: col_Date_def col_Max_Temp_def col_Min_Temp_def col_Avg_Temp_def col_Conditions_def
      col_Precip_def)

text \<open>
  Claim C1, amended. For every entry of a well-formed payload the precipitation of the
  record is the entry's \<open>precip\<close> value when the entry has one that is not \<open>null\<close>, and 0
  when the entry has no such field (in a float column pandas stores an \<open>int\<close>, the 0
  included, as the equal float); the fetch succeeds either way. A \<open>null\<close> is not replaced
  by 0: the record holds \<open>null\<close>, or NaN where the column is stored as floats.
\<close>

theorem precip_column:
  assumes "start_date year month = Inr start_s"
    and "end_date year month = Inr end_s"
    and "req = build_request city start_s end_s api_key"
    and "requests_get lib req = GetReturns r"
    and "\<not> (400 \<le> status_code r \<and> status_code r < 600)"
    and "json r = Inr (JObj items)"
    and "map_of items ''days'' = Some (JArr entries)"
    and "entries \<noteq> []"
    and "list_all well_formed_entry entries"
    and "map (to_datetime_value lib (date_cells entries)) (date_cells entries) = map Inr dates"
  shows "\<exists>df col. fetch_monthly_data lib city year month api_key = ([req], Returned_df df)
            \<and> map_of df col_Precip = Some col
            \<and> length col = length entries
            \<and> (\<forall>i < length entries.
                  (case field ''precip'' (entries ! i) of
                     None \<Rightarrow> col ! i = Value (JInt 0) \<or> col ! i = Value (JFloat (float_of_int lib 0))
                   | Some JNull \<Rightarrow> col ! i = Value JNull \<or> col ! i = Value (JFloat (nan lib))
                   | Some (JInt k) \<Rightarrow>
                       col ! i = Value (JInt k) \<or> col ! i = Value (JFloat (float_of_int lib k))
                   | Some v \<Rightarrow> col ! i = Value v))"
proof -
  let ?col = "precip_column_of lib entries"
  have "fetch_monthly_data lib city year month api_key
      = ([req], Returned_df (frame_of lib entries dates))"
    by (rule fetch_entries [OF assms])
  moreover have "map_of (frame_of lib entries dates) col_Precip = Some ?col"
    unfolding frame_of_columns by (rule col_Precip_lookup)
  moreover have "length ?col = length entries"
    by (simp add: precip_column_of_def infer_column_length)
  moreover have "\<forall>i < length entries.
      (case field ''precip'' (entries ! i) of
         None \<Rightarrow> ?col ! i = Value (JInt 0) \<or> ?col ! i = Value (JFloat (float_of_int lib 0))
       | Some JNull \<Rightarrow> ?col ! i = Value JNull \<or> ?col ! i = Value (JFloat (nan lib))
       | Some (JInt k) \<Rightarrow> ?col ! i = Value (JInt k) \<or> ?col ! i = Value (JFloat (float_of_int lib k))
       | Some v \<Rightarrow> ?col ! i = Value v)"
  proof (intro allI impI)
    fix i assume i: "i < length entries"
    show "case field ''precip'' (entries ! i) of
         None \<Rightarrow> ?col ! i = Value (JInt 0) \<or> ?col ! i = Value (JFloat (float_of_int lib 0))
       | Some JNull \<Rightarrow> ?col ! i = Value JNull \<or> ?col ! i = Value (JFloat (nan lib))
       | Some (JInt k) \<Rightarrow> ?col ! i = Value (JInt k) \<or> ?col ! i = Value (JFloat (float_of_int lib k))
       | Some v \<Rightarrow> ?col ! i = Value v"
      using precip_column_cell [OF i, of lib]
      by (auto simp: stored_as_def precip_or_0_def to_float_def split: option.splits json.splits)
  qed
  ultimately show ?thesis by blast
qed

text \<open>The first entry has a \<open>precip\<close> of 4.5, the second has none.\<close>

theorem precip_column_witness:
  "\<exists>df. fetch_monthly_data (answering (GetReturns (response_with 200 ''OK'' two_days)))
           ''Chennai'' 2025 11 ''KEY'' = ([chennai_request], Returned_df df)
      \<and> map_of df col_Precip = Some [Value (JFloat ''4.5''), Value (JFloat ''0.0'')]"
proof -
  let ?lib = "answering (GetReturns (response_with 200 ''OK'' two_days))"
  have get: "requests_get ?lib chennai_request = GetReturns (response_with 200 ''OK'' two_days)"
    by (simp add: answering_get)
  have st: "\<not> (400 \<le> status_code (response_with 200 ''OK'' two_days)
              \<and> status_code (response_with 200 ''OK'' two_days) < 600)"
    by (simp add: response_with_simps)
  have js: "json (response_with 200 ''OK'' two_days) = Inr (JObj [(''days'', JArr [day_1, day_2])])"
    by (simp add: response_with_simps two_days_def)
  have dy: "map_of [(''days'', JArr [day_1, day_2])] ''days'' = Some (JArr [day_1, day_2])"
    by simp
  have ne: "[day_1, day_2] \<noteq> []" by simp
  have wf: "list_all well_formed_entry [day_1, day_2]"
    by (simp add: example_fields)
  obtain df col where df: "fetch_monthly_data ?lib ''Chennai'' 2025 11 ''KEY''
      = ([chennai_request], Returned_df df)" "map_of df col_Precip = Some col"
    using precip_column [OF chennai_facts get st js dy ne wf example_conversion] by blast
  have "fetch_monthly_data ?lib ''Chennai'' 2025 11 ''KEY''
      = ([chennai_request], Returned_df (frame_of ?lib [day_1, day_2] [(2025, 11, 1), (2025, 11, 2)]))"
    by (rule fetch_entries [OF chennai_facts get st js dy ne wf example_conversion])
  then have "df = frame_of ?lib [day_1, day_2] [(2025, 11, 1), (2025, 11, 2)]"
    using df(1) by simp
  moreover have "map_of (frame_of ?lib [day_1, day_2] [(2025, 11, 1), (2025, 11, 2)]) col_Precip
      = Some (precip_column_of ?lib [day_1, day_2])"
    unfolding frame_of_columns by (rule col_Precip_lookup)
  ultimately have "map_of df col_Precip = Some [Value (JFloat ''4.5''), Value (JFloat ''0.0'')]"
    by (simp add: example_columns)
  with df(1) show ?thesis by blast
qed

lemma null_precip_frame:
  "fetch_monthly_data (answering (GetReturns (response_with 200 ''OK'' null_precip)))
       ''Chennai'' 2025 11 ''KEY''
     = ([chennai_request],
        Returned_df (frame_of (answering (GetReturns (response_with 200 ''OK'' null_precip)))
          [day_null] [(2025, 11, 3)]))"
proof -
  let ?lib = "answering (GetReturns (response_with 200 ''OK'' null_precip))"
  show ?thesis
  proof (rule fetch_entries [OF chennai_facts, where r = "response_with 200 ''OK'' null_precip"
        and items = "[(''days'', JArr [day_null])]"])
    show "map (to_datetime_value ?lib (date_cells [day_null])) (date_cells [day_null])
        = map Inr [(2025, 11, 3)]"
      by (simp add: date_cells_def field_def day_null_def answering_def iso_examples)
  qed (simp_all add: answering_get response_with_simps null_precip_def example_fields)
qed

lemma null_beside_frame:
  "fetch_monthly_data (answering (GetReturns (response_with 200 ''OK'' one_null_beside)))
       ''Chennai'' 2025 11 ''KEY''
     = ([chennai_request],
        Returned_df (frame_of (answering (GetReturns (response_with 200 ''OK'' one_null_beside)))
          [day_1, day_null] [(2025, 11, 1), (2025, 11, 3)]))"
proof -
  let ?lib = "answering (GetReturns (response_with 200 ''OK'' one_null_beside))"
  show ?thesis
  proof (rule fetch_entries [OF chennai_facts, where r = "response_with 200 ''OK'' one_null_beside"
        and items = "[(''days'', JArr [day_1, day_null])]"])
    show "map (to_datetime_value ?lib (date_cells [day_1, day_null])) (date_cells [day_1, day_null])
        = map Inr [(2025, 11, 1), (2025, 11, 3)]"
      by (simp add: date_cells_def field_def day_1_def day_null_def answering_def iso_examples)
  qed (simp_all add: answering_get response_with_simps one_null_beside_def example_fields)
qed

text \<open>
  An entry whose \<open>precip\<close> is \<open>null\<close> gives a record whose precipitation is \<open>null\<close> when it
  is the only entry, and NaN beside an entry with a number; in neither case 0.
\<close>

theorem precip_column_counterexample:
  "field ''precip'' day_null = Some JNull
   \<and> fetch_monthly_data (answering (GetReturns (response_with 200 ''OK'' null_precip)))
       ''Chennai'' 2025 11 ''KEY''
     = ([chennai_request], Returned_df
          [(col_Date, [Timestamp (2025, 11, 3)]),
           (col_Max_Temp, [Value (JFloat ''30.5'')]),
           (col_Min_Temp, [Value (JFloat ''25.0'')]),
           (col_Avg_Temp, [Value (JFloat ''27.6'')]),
           (col_Conditions, [Value (JStr ''Clear'')]),
           (col_Precip, [Value JNull])])
   \<and> fetch_monthly_data (answering (GetReturns (response_with 200 ''OK'' one_null_beside)))
       ''Chennai'' 2025 11 ''KEY''
     = ([chennai_request], Returned_df
          [(col_Date, [Timestamp (2025, 11, 1), Timestamp (2025, 11, 3)]),
           (col_Max_Temp, [Value (JFloat ''31.2''), Value (JFloat ''30.5'')]),
           (col_Min_Temp, [Value (JFloat ''25.4''), Value (JFloat ''25.0'')]),
           (col_Avg_Temp, [Value (JFloat ''28.0''), Value (JFloat ''27.6'')]),
           (col_Conditions, [Value (JStr ''Rain''), Value (JStr ''Clear'')]),
           (col_Precip, [Value (JFloat ''4.5''), Value (JFloat ''nan'')])])
   \<and> (Value JNull :: (string, date) cell) \<noteq> Value (JInt 0)
   \<and> (Value (JFloat ''nan'') :: (string, date) cell) \<noteq> Value (JFloat ''0.0'')"
  by (simp add: null_precip_frame null_beside_frame)
     (simp add: frame_of_def precip_or_0_def infer_column_def is_number_or_null_def is_null_def
        is_int_def to_float_def field_def day_1_def day_null_def answering_def)

text \<open>
  Claim C3. When some entry of the \<open>days\<close> list lacks one of \<open>datetime\<close>, \<open>tempmax\<close>,
  \<open>tempmin\<close>, \<open>temp\<close> or \<open>conditions\<close>, the fetch returns \<open>None\<close> after \<open>st.error\<close>: no frame
  is returned, neither a partial one nor one that skips the entry.
\<close>

theorem missing_required_field:
  assumes "start_date year month = Inr start_s"
    and "end_date year month = Inr end_s"
    and "req = build_request city start_s end_s api_key"
    and "requests_get lib req = GetReturns r"
    and "json r = Inr (JObj items)"
    and "map_of items ''days'' = Some (JArr entries)"
    and "e \<in> set entries"
    and "e = JObj fs"
    and "k \<in> {''datetime'', ''tempmax'', ''tempmin'', ''temp'', ''conditions''}"
    and "map_of fs k = None"
  shows "\<exists>f. fetch_monthly_data lib city year month api_key = ([req], Returned_None f)"
proof -
  have "\<not> has_required e"
    using assms(8,9,10) by (auto simp: has_required_def field_def)
  then have "\<not> list_all has_required entries"
    using assms(7) by (auto simp: list_all_iff)
  then obtain x where x: "normalize lib (JObj items) = Inl x"
    using normalize_missing [OF assms(6)] by blast
  have "\<exists>y. try_block lib req = Inl y"
    using assms(4,5) x by (cases "raise_for_status r") (simp_all add: try_block_def)
  then show ?thesis
    using fetch_unfold [OF assms(1,2,3), of lib] by auto
qed

text \<open>The second of two entries has no \<open>temp\<close>: the \<open>KeyError\<close> discards the first row too.\<close>

theorem missing_required_field_witness:
  "fetch_monthly_data (answering (GetReturns (response_with 200 ''OK'' partial_days)))
       ''Chennai'' 2025 11 ''KEY''
     = ([chennai_request], Returned_None (Unexpected_Error (KeyError ''temp'')))"
proof -
  let ?lib = "answering (GetReturns (response_with 200 ''OK'' partial_days))"
  have "\<exists>f. fetch_monthly_data ?lib ''Chennai'' 2025 11 ''KEY'' = ([chennai_request], Returned_None f)"
    by (rule missing_required_field [where r = "response_with 200 ''OK'' partial_days"
          and items = "[(''days'', JArr [day_1, day_partial])]" and entries = "[day_1, day_partial]"
          and e = day_partial and k = "''temp''"
          and fs = "[(''datetime'', JStr ''2025-11-02''), (''tempmax'', JFloat ''30.0''),
                       (''tempmin'', JFloat ''24.9''), (''conditions'', JStr ''Clear'')]",
          OF chennai_facts])
       (simp_all add: answering_get response_with_def partial_days_def day_partial_def)
  moreover have "try_block ?lib chennai_request = Inl (KeyError ''temp'')"
    by (simp add: try_block_answering normalize_def partial_days_def py_in_def py_getitem_def
        py_iter_def make_row_required well_formed_required example_fields)
       (simp add: make_row_def day_partial_def py_getitem_def)
  ultimately show ?thesis
    using fetch_unfold [OF chennai_facts, of ?lib] by (simp add: except_def)
qed




text \<open>
  Claim C6, amended. When \<open>requests.get\<close> raises a \<open>RequestException\<close> (no name
  resolution, a refused connection, a timeout), or the response has a status from 400
  to 599, the fetch shows \<open>API Request Failed\<close> with the text of the exception and
  returns \<open>None\<close>.
\<close>

theorem transport_failure:
  assumes "start_date year month = Inr start_s"
    and "end_date year month = Inr end_s"
    and "req = build_request city start_s end_s api_key"
    and "requests_get lib req = GetRaises (RequestException cause)
         \<or> (\<exists>r. requests_get lib req = GetReturns r
                \<and> 400 \<le> status_code r \<and> status_code r < 600 \<and> cause = http_error_text r)"
  shows "fetch_monthly_data lib city year month api_key
           = ([req], Returned_None (API_Request_Failed cause))
       \<and> st_error_text (API_Request_Failed cause)
           = Some (''API Request Failed: '' @ cause @ ''. Check city name or API key.'')"
proof -
  have "try_block lib req = Inl (RequestException cause)"
    using assms(4)
  proof
    assume "requests_get lib req = GetRaises (RequestException cause)"
    then show ?thesis by (simp add: try_block_def)
  next
    assume "\<exists>r. requests_get lib req = GetReturns r
                \<and> 400 \<le> status_code r \<and> status_code r < 600 \<and> cause = http_error_text r"
    then obtain r where r: "requests_get lib req = GetReturns r"
      "400 \<le> status_code r" "status_code r < 600" "cause = http_error_text r" by blast
    have "raise_for_status r = Inl (RequestException cause)"
      using r(2,3,4) by (auto simp: raise_for_status_def http_error_text_def)
    then show ?thesis using r(1) by (simp add: try_block_def)
  qed
  then show ?thesis
    using fetch_unfold [OF assms(1,2,3), of lib] by (simp add: except_def st_error_text_def)
qed

text \<open>A read timeout, and a response with status 401.\<close>

theorem transport_failure_witness:
  "fetch_monthly_data (answering (GetRaises (RequestException ''Read timed out. (read timeout=10)'')))
       ''Chennai'' 2025 11 ''KEY''
     = ([chennai_request], Returned_None (API_Request_Failed ''Read timed out. (read timeout=10)''))
   \<and> fetch_monthly_data (answering (GetReturns (response_with 401 ''Unauthorized'' no_days)))
       ''Chennai'' 2025 11 ''KEY''
     = ([chennai_request], Returned_None (API_Request_Failed
          ''401 Client Error: Unauthorized for url: https://weather.example/''))
   \<and> st_error_text (API_Request_Failed
          ''401 Client Error: Unauthorized for url: https://weather.example/'')
     = Some ''API Request Failed: 401 Client Error: Unauthorized for url: https://weather.example/. Check city name or API key.''"
proof -
  have t: "http_error_text (response_with 401 ''Unauthorized'' no_days)
             = ''401 Client Error: Unauthorized for url: https://weather.example/''"
    by (simp add: http_error_text_def response_with_def decimal_def str_nat.simps)
  show ?thesis
    using transport_failure [where year = 2025 and month = 11 and city = "''Chennai''"
        and api_key = "''KEY''" and req = chennai_request
        and lib = "answering (GetRaises (RequestException ''Read timed out. (read timeout=10)''))"
        and cause = "''Read timed out. (read timeout=10)''", OF chennai_facts]
      transport_failure [where year = 2025 and month = 11 and city = "''Chennai''"
        and api_key = "''KEY''" and req = chennai_request
        and lib = "answering (GetReturns (response_with 401 ''Unauthorized'' no_days))"
        and cause = "''401 Client Error: Unauthorized for url: https://weather.example/''",
        OF chennai_facts]
    by (simp add: answering_get t response_with_simps)
qed

text \<open>
  A status outside 200 to 299 that is not an error status: \<open>raise_for_status\<close> lets a
  response with status 304 pass, and its body is normalised into a frame.
\<close>

theorem transport_failure_counterexample:
  "status_code (response_with 304 ''Not Modified'' two_days) = 304
   \<and> fetch_monthly_data (answering (GetReturns (response_with 304 ''Not Modified'' two_days)))
       ''Chennai'' 2025 11 ''KEY''
     = ([chennai_request], Returned_df
          [(col_Date, [Timestamp (2025, 11, 1), Timestamp (2025, 11, 2)]),
           (col_Max_Temp, [Value (JFloat ''31.2''), Value (JFloat ''30.0'')]),
           (col_Min_Temp, [Value (JFloat ''25.4''), Value (JFloat ''24.9'')]),
           (col_Avg_Temp, [Value (JFloat ''28.0''), Value (JFloat ''27.1'')]),
           (col_Conditions, [Value (JStr ''Rain''), Value (JStr ''Clear'')]),
           (col_Precip, [Value (JFloat ''4.5''), Value (JFloat ''0.0'')])])"
proof -
  let ?lib = "answering (GetReturns (response_with 304 ''Not Modified'' two_days))"
  have "fetch_monthly_data ?lib ''Chennai'' 2025 11 ''KEY''
      = ([chennai_request], Returned_df (frame_of ?lib [day_1, day_2] [(2025, 11, 1), (2025, 11, 2)]))"
    by (rule fetch_entries [OF chennai_facts, where r = "response_with 304 ''Not Modified'' two_days"
          and items = "[(''days'', JArr [day_1, day_2])]"])
       (simp_all add: answering_get response_with_simps two_days_def example_fields
          example_conversion)
  then show ?thesis
    by (simp add: frame_of_columns example_columns response_with_simps)
qed

text \<open>
  Claim C10. With an empty \<open>days\<close> list \<open>pd.DataFrame\<close> builds a frame without columns,
  \<open>df["Date"]\<close> raises \<open>KeyError\<close>, and the fetch shows \<open>Unexpected Error: 'Date'\<close> and
  returns \<open>None\<close>: it does not return an empty frame. The branch at line 87 renders
  nothing for \<open>None\<close>, as it would for an empty frame.
\<close>

theorem empty_days_list:
  "fetch_monthly_data (answering (GetReturns (response_with 200 ''OK'' empty_days)))
       ''Chennai'' 2025 11 ''KEY''
     = ([chennai_request], Returned_None (Unexpected_Error (KeyError ''Date'')))
   \<and> st_error_text (Unexpected_Error (KeyError ''Date''))
       = Some (''Unexpected Error: '' @ [CHR 0x27] @ ''Date'' @ [CHR 0x27])
   \<and> \<not> renders (Returned_None (Unexpected_Error (KeyError ''Date'')) :: (string, date) outcome)
   \<and> \<not> renders (Returned_df [] :: (string, date) outcome)"
proof -
  let ?lib = "answering (GetReturns (response_with 200 ''OK'' empty_days))"
  have "try_block ?lib chennai_request = normalize ?lib empty_days"
    by (rule try_block_answering) simp
  also have "\<dots> = Inl (KeyError ''Date'')"
    by (simp add: normalize_def empty_days_def py_in_def py_getitem_def py_iter_def DataFrame_def
        df_getitem_def col_Date_def)
  finally show ?thesis
    using fetch_unfold [OF chennai_facts, of ?lib]
    by (simp add: except_def st_error_text_def str_exn_def renders_def df_empty_def)
qed

section \<open>The cache\<close>

lemma fetch_requests:
  "fst (fetch_monthly_data lib city year month api_key)
     = (case start_date year month of
          Inl e \<Rightarrow> []
        | Inr start_s \<Rightarrow> (case end_date year month of
                           Inl e \<Rightarrow> []
                         | Inr end_s \<Rightarrow> [build_request city start_s end_s api_key]))"
  by (simp add: fetch_monthly_data_def Let_def split: sum.splits)

lemma fetch_requests_same:
  "fst (fetch_monthly_data lib city year month api_key)
     = fst (fetch_monthly_data lib' city year month api_key)"
  by (simp add: fetch_requests)

lemma fetch_requests_length: "length (fst (fetch_monthly_data lib city year month api_key)) \<le> 1"
  by (simp add: fetch_requests split: sum.splits)

lemma fetch_raised_no_request:
  "fetch_monthly_data lib city year month api_key = (reqs, Raised e) \<Longrightarrow> reqs = []"
  by (auto simp: fetch_monthly_data_def Let_def split: sum.splits)

lemma run_and_store_requests:
  "fst (snd (run_and_store lib now cache city year month api_key))
     = fst (fetch_monthly_data lib city year month api_key)"
  by (simp add: run_and_store_def split: prod.splits outcome.splits)

lemma run_and_store_stored:
  assumes "run_and_store lib now cache city year month api_key = (cache', reqs, out)"
    and "reqs \<noteq> []"
  shows "cache' = cache((city, year, month, api_key) \<mapsto> (now + ttl, out))"
  using assms fetch_raised_no_request [of lib city year month api_key]
  by (auto simp: run_and_store_def split: prod.splits outcome.splits)

lemma cached_hit:
  assumes "cache (city, year, month, api_key) = Some (expires, out)" "now < expires"
  shows "cached_fetch_monthly_data lib now cache city year month api_key = (cache, [], out)"
  using assms by (simp add: cached_fetch_monthly_data_def)

lemma cached_miss:
  assumes "\<not> cache_hit cache now (city, year, month, api_key)"
  shows "cached_fetch_monthly_data lib now cache city year month api_key
           = run_and_store lib now cache city year month api_key"
  using assms by (auto simp: cached_fetch_monthly_data_def cache_hit_def split: option.splits)

lemma cached_hit_iff:
  assumes "cache_hit cache now (city, year, month, api_key)"
  shows "fst (snd (cached_fetch_monthly_data lib now cache city year month api_key)) = []"
  using assms by (auto simp: cached_fetch_monthly_data_def cache_hit_def split: option.splits)

lemma cached_requests:
  "fst (snd (cached_fetch_monthly_data lib now cache city year month api_key))
     = (if cache_hit cache now (city, year, month, api_key) then []
        else fst (fetch_monthly_data lib city year month api_key))"
  by (simp add: cached_hit_iff cached_miss run_and_store_requests)

lemma cached_requests_length:
  "length (fst (snd (cached_fetch_monthly_data lib now cache city year month api_key))) \<le> 1"
  using fetch_requests_length [of lib city year month api_key] by (simp add: cached_requests)

lemma cached_computed:
  assumes "cached_fetch_monthly_data lib now cache city year month api_key = (cache', reqs, out)"
    and "reqs \<noteq> []"
  shows "cache' = cache((city, year, month, api_key) \<mapsto> (now + ttl, out))"
    and "reqs = fst (fetch_monthly_data lib city year month api_key)"
proof -
  have miss: "\<not> cache_hit cache now (city, year, month, api_key)"
    using assms cached_hit_iff [of cache now city year month api_key lib] by auto
  then have rs: "run_and_store lib now cache city year month api_key = (cache', reqs, out)"
    using assms(1) by (simp add: cached_miss)
  show "cache' = cache((city, year, month, api_key) \<mapsto> (now + ttl, out))"
    by (rule run_and_store_stored [OF rs assms(2)])
  show "reqs = fst (fetch_monthly_data lib city year month api_key)"
    using run_and_store_requests [of lib now cache city year month api_key] rs by simp
qed

text \<open>
  Claim C4. Of two calls with the same arguments, the second less than one hour after
  the first, at most one reaches the network. When the first call computed its result
  over the network, the second call issues no request and returns that result, a frame
  or a failure alike, and leaves the cache as it is; a further call, one hour or more
  after the first, issues the request again: one request after the first call, one
  after the second, two after the third.
\<close>

theorem cache_within_ttl:
  assumes "cached_fetch_monthly_data lib1 t1 c0 city year month api_key = (c1, r1, o1)"
    and "cached_fetch_monthly_data lib2 t2 c1 city year month api_key = (c2, r2, o2)"
    and "cached_fetch_monthly_data lib3 t3 c2 city year month api_key = (c3, r3, o3)"
    and "t2 < t1 + 3600"
    and "t1 + 3600 \<le> t3"
  shows "length (r1 @ r2) \<le> 1
       \<and> (r1 \<noteq> [] \<longrightarrow>
            r2 = [] \<and> o2 = o1 \<and> c2 = c1 \<and> r3 = r1
            \<and> length r1 = 1 \<and> length (r1 @ r2) = 1 \<and> length (r1 @ r2 @ r3) = 2)"
proof -
  let ?key = "(city, year, month, api_key)"
  have computed: "r2 = [] \<and> o2 = o1 \<and> c2 = c1 \<and> r3 = r1
      \<and> length r1 = 1 \<and> length (r1 @ r2) = 1 \<and> length (r1 @ r2 @ r3) = 2" if ne: "r1 \<noteq> []"
  proof -
    have one: "length r1 = 1"
      using cached_requests_length [of lib1 t1 c0 city year month api_key] assms(1) ne
      by (cases r1) simp_all
    have c1: "c1 = c0(?key \<mapsto> (t1 + ttl, o1))"
      and r1: "r1 = fst (fetch_monthly_data lib1 city year month api_key)"
      using cached_computed [OF assms(1) ne] by simp_all
    have entry: "c1 ?key = Some (t1 + ttl, o1)" using c1 by simp
    have second: "cached_fetch_monthly_data lib2 t2 c1 city year month api_key = (c1, [], o1)"
      using assms(4) by (intro cached_hit [where cache = c1, OF entry]) (simp add: ttl_def)
    then have s: "r2 = []" "o2 = o1" "c2 = c1" using assms(2) by simp_all
    have "\<not> cache_hit c2 t3 ?key"
      using entry s(3) assms(5) by (simp add: cache_hit_def ttl_def)
    then have "r3 = fst (fetch_monthly_data lib3 city year month api_key)"
      using cached_requests [of lib3 t3 c2 city year month api_key] assms(3) by simp
    then have "r3 = r1"
      using r1 fetch_requests_same [of lib3 city year month api_key lib1] by simp
    with s one show ?thesis by simp
  qed
  have "length (r1 @ r2) \<le> 1"
  proof (cases "r1 = []")
    case True
    then show ?thesis
      using cached_requests_length [of lib2 t2 c1 city year month api_key] assms(2) by simp
  next
    case False
    then show ?thesis using computed by simp
  qed
  with computed show ?thesis by blast
qed

lemma two_days_fetch:
  "fetch_monthly_data two_days_lib ''Chennai'' 2025 11 ''KEY''
     = ([chennai_request], Returned_df two_days_frame)"
proof -
  have "fetch_monthly_data two_days_lib ''Chennai'' 2025 11 ''KEY''
      = ([chennai_request],
         Returned_df (frame_of two_days_lib [day_1, day_2] [(2025, 11, 1), (2025, 11, 2)]))"
    unfolding two_days_lib_def
    by (rule fetch_entries [OF chennai_facts, where r = "response_with 200 ''OK'' two_days"
          and items = "[(''days'', JArr [day_1, day_2])]"])
       (simp_all add: answering_get response_with_simps two_days_def example_fields
          example_conversion)
  then show ?thesis
    by (simp add: frame_of_columns two_days_lib_def example_columns two_days_frame_def)
qed

lemma first_call:
  "cached_fetch_monthly_data two_days_lib 0 no_cache ''Chennai'' 2025 11 ''KEY''
     = (warm_cache, [chennai_request], Returned_df two_days_frame)"
  by (simp add: cached_fetch_monthly_data_def no_cache_def run_and_store_def two_days_fetch
      warm_cache_def chennai_key_def ttl_def)

text \<open>
  A first call at time 0 reaches the network and stores its frame; a call half an hour
  later is answered from the cache although the network is down; a call at one hour
  reaches the network again.
\<close>

theorem cache_within_ttl_witness:
  "cached_fetch_monthly_data two_days_lib 0 no_cache ''Chennai'' 2025 11 ''KEY''
     = (warm_cache, [chennai_request], Returned_df two_days_frame)
   \<and> cached_fetch_monthly_data offline_lib 1800 warm_cache ''Chennai'' 2025 11 ''KEY''
     = (warm_cache, [], Returned_df two_days_frame)
   \<and> fst (snd (cached_fetch_monthly_data two_days_lib 3600 warm_cache ''Chennai'' 2025 11 ''KEY''))
     = [chennai_request]"
proof -
  obtain c2 r2 o2 where second:
    "cached_fetch_monthly_data offline_lib 1800 warm_cache ''Chennai'' 2025 11 ''KEY'' = (c2, r2, o2)"
    by (cases "cached_fetch_monthly_data offline_lib 1800 warm_cache ''Chennai'' 2025 11 ''KEY''")
  obtain c3 r3 o3 where third:
    "cached_fetch_monthly_data two_days_lib 3600 c2 ''Chennai'' 2025 11 ''KEY'' = (c3, r3, o3)"
    by (cases "cached_fetch_monthly_data two_days_lib 3600 c2 ''Chennai'' 2025 11 ''KEY''")
  have "r2 = [] \<and> o2 = Returned_df two_days_frame \<and> c2 = warm_cache \<and> r3 = [chennai_request]"
    using cache_within_ttl [OF first_call second third] by simp
  then show ?thesis
    using first_call second third by simp
qed

section \<open>The request that is built\<close>

lemma str_nat_length_le2: "n < 100 \<Longrightarrow> length (str_nat n) \<le> 2"
  by (cases "n < 10") (simp_all add: str_nat_digit str_nat_length_step)

lemma str_nat_nonempty: "0 < length (str_nat n)"
  by (subst str_nat.simps) simp

lemma zfill_length2: "n < 100 \<Longrightarrow> length (zfill 2 (str_nat n)) = 2"
  using str_nat_length_le2 [of n] str_nat_nonempty [of n] by (simp add: zfill_def)

lemma strftime_length:
  assumes "1000 \<le> year" "year \<le> 9999" "0 \<le> month" "month < 100" "0 \<le> day" "day < 100"
  shows "length (strftime_Ymd (year, month, day)) = 10"
proof -
  have "length (str_nat (nat year)) = 4" using assms by (intro str_nat_length4) simp_all
  moreover have "length (zfill 2 (str_nat (nat month))) = 2" using assms by (intro zfill_length2) simp
  moreover have "length (zfill 2 (str_nat (nat day))) = 2" using assms by (intro zfill_length2) simp
  ultimately show ?thesis by (simp add: strftime_Ymd_def)
qed

lemma start_date_iso:
  assumes "1000 \<le> year" "year \<le> 9999" "1 \<le> month" "month \<le> 12"
  shows "start_date year month = Inr (strftime_Ymd (year, month, 1))"
proof -
  have "zfill 2 (str_nat (Suc 0)) = ''01''" by (simp add: zfill_def str_nat.simps)
  moreover have "start_date year month
      = Inr (decimal year @ ''-'' @ zfill 2 (str_nat (nat month)) @ ''-01'')"
    using assms within_str_digits [of year] by (intro start_date_small) simp_all
  ultimately show ?thesis
    using assms by (simp add: strftime_Ymd_def decimal_nonneg)
qed

lemma end_date_iso:
  assumes "1000 \<le> year" "year \<le> 9999" "1 \<le> month" "month \<le> 12"
  shows "end_date year month = Inr (strftime_Ymd (year, month, days_in_month year month))"
proof (cases "month = 12")
  case True
  have "zfill 2 (str_nat 12) = ''12''" "zfill 2 (str_nat 31) = ''31''"
    by (simp_all add: zfill_def str_nat.simps)
  then show ?thesis
    using True assms
    by (simp add: end_date_def str_int_small strftime_Ymd_def decimal_nonneg days_in_month_def
        DAYS_IN_MONTH_def)
next
  case False
  then have "end_datetime year month = Inr (year, month, days_in_month year month)"
    using assms by (intro end_datetime_eq) simp_all
  then show ?thesis using False by (simp add: end_date_def)
qed

text \<open>
  Claim C8, amended. For every month from 1 to 12 and every year from 1000 to 9999, a
  fetch that the cache does not answer hands exactly one request to \<open>requests.get\<close>: a GET
  of the timeline endpoint followed by the location and the first and last day of the
  month, each written \<open>YYYY-MM-DD\<close> (ten characters), with the five query parameters and
  a timeout of 10. A fetch that the cache answers builds no request.
\<close>

theorem request_built:
  assumes "1 \<le> month" "month \<le> 12" "1000 \<le> year" "year \<le> 9999"
  shows "fst (snd (cached_fetch_monthly_data lib now cache city year month api_key))
           = (if cache_hit cache now (city, year, month, api_key) then []
              else [\<lparr>verb = ''GET'',
                     url = timeline @ city @ ''/'' @ strftime_Ymd (year, month, 1)
                             @ ''/'' @ strftime_Ymd (year, month, days_in_month year month),
                     params = [(''key'', api_key), (''include'', ''days''),
                               (''unitGroup'', ''metric''), (''contentType'', ''json''),
                               (''elements'', ''datetime,tempmax,tempmin,temp,conditions,precip'')],
                     timeout = 10\<rparr>])
       \<and> length (strftime_Ymd (year, month, 1)) = 10
       \<and> length (strftime_Ymd (year, month, days_in_month year month)) = 10"
proof -
  have d: "28 \<le> days_in_month year month" "days_in_month year month \<le> 31"
    using days_in_month_range [OF assms(1,2), of year] by simp_all
  have "fst (fetch_monthly_data lib city year month api_key)
      = [build_request city (strftime_Ymd (year, month, 1))
           (strftime_Ymd (year, month, days_in_month year month)) api_key]"
    by (simp add: fetch_requests start_date_iso [OF assms(3,4,1,2)] end_date_iso [OF assms(3,4,1,2)])
  moreover have "length (strftime_Ymd (year, month, 1)) = 10"
    using assms by (intro strftime_length) simp_all
  moreover have "length (strftime_Ymd (year, month, days_in_month year month)) = 10"
    using assms d by (intro strftime_length) simp_all
  ultimately show ?thesis by (simp add: cached_requests build_request_def)
qed

text \<open>Chennai, November 2025: a first call, and a call half an hour later.\<close>

theorem request_built_witness:
  "fst (snd (cached_fetch_monthly_data two_days_lib 0 no_cache ''Chennai'' 2025 11 ''KEY''))
     = [\<lparr>verb = ''GET'',
         url = ''https://weather.visualcrossing.com/VisualCrossingWebServices/rest/services/timeline/Chennai/2025-11-01/2025-11-30'',
         params = [(''key'', ''KEY''), (''include'', ''days''), (''unitGroup'', ''metric''),
                   (''contentType'', ''json''),
                   (''elements'', ''datetime,tempmax,tempmin,temp,conditions,precip'')],
         timeout = 10\<rparr>]
   \<and> fst (snd (cached_fetch_monthly_data two_days_lib 1800 warm_cache ''Chennai'' 2025 11 ''KEY''))
     = []"
proof -
  have "days_in_month 2025 11 = 30" by (simp add: days_in_month_def DAYS_IN_MONTH_def)
  moreover have "strftime_Ymd (2025, 11, 1) = ''2025-11-01''" "strftime_Ymd (2025, 11, 30) = ''2025-11-30''"
    by (simp_all add: strftime_Ymd_def zfill_def str_nat.simps)
  moreover have "\<not> cache_hit no_cache 0 (''Chennai'', 2025, 11, ''KEY'')"
    "cache_hit warm_cache 1800 (''Chennai'', 2025, 11, ''KEY'')"
    by (simp_all add: cache_hit_def no_cache_def warm_cache_def chennai_key_def)
  ultimately show ?thesis
    using request_built [of 11 2025 two_days_lib 0 no_cache "''Chennai''" "''KEY''"]
      request_built [of 11 2025 two_days_lib 1800 warm_cache "''Chennai''" "''KEY''"]
    by (simp add: timeline_def)
qed

text \<open>
  A fetch within an hour of a first one builds no request. For the year 999 the start
  date is written with three digits for the year; for the year 0 and January the
  \<open>datetime\<close> constructor raises before any request is built.
\<close>

theorem request_built_counterexample:
  "cached_fetch_monthly_data two_days_lib 0 no_cache ''Chennai'' 2025 11 ''KEY''
     = (warm_cache, [chennai_request], Returned_df two_days_frame)
   \<and> cached_fetch_monthly_data two_days_lib 1800 warm_cache ''Chennai'' 2025 11 ''KEY''
     = (warm_cache, [], Returned_df two_days_frame)
   \<and> start_date 999 1 = Inr ''999-01-01''
   \<and> cached_fetch_monthly_data two_days_lib 0 no_cache ''Chennai'' 0 1 ''KEY''
     = (no_cache, [], Raised DatetimeValueError)"
proof -
  have "cached_fetch_monthly_data two_days_lib 1800 warm_cache ''Chennai'' 2025 11 ''KEY''
      = (warm_cache, [], Returned_df two_days_frame)"
    by (rule cached_hit [where expires = 3600]) (simp_all add: warm_cache_def chennai_key_def)
  moreover have "start_date 999 1 = Inr ''999-01-01''"
    by (simp add: start_date_def str_int_small fmt_02d_small decimal_def zfill_def str_nat.simps)
  moreover have "start_date 0 1 = Inr ''0-01-01''"
    by (simp add: start_date_def str_int_small fmt_02d_small decimal_def zfill_def str_nat.simps)
  then have "fetch_monthly_data two_days_lib ''Chennai'' 0 1 ''KEY'' = ([], Raised DatetimeValueError)"
    by (simp add: fetch_monthly_data_def end_date_def end_datetime_def datetime_def c_int_def
        MINYEAR_def)
  then have "cached_fetch_monthly_data two_days_lib 0 no_cache ''Chennai'' 0 1 ''KEY''
      = (no_cache, [], Raised DatetimeValueError)"
    by (simp add: cached_fetch_monthly_data_def no_cache_def run_and_store_def)
  ultimately show ?thesis
    using first_call by simp
qed

end
